theory Spec2Isabelle
  imports Main "HOL-Library.Word" "HOL-Library.Sublist" "HOL-Library.AList"
begin

section \<open>JavaScript strings\<close>

text \<open>
  A JavaScript string is a sequence of UTF-16 code units. \<open>length\<close> is the
  JavaScript \<open>.length\<close>; the number of bytes a string occupies once written with
  the \<open>utf8\<close> encoding is \<open>utf8_length\<close>. String literals of the source are
  written \<open>js ''...''\<close>; a character outside ASCII is given by its code unit.
\<close>

type_synonym jsstring = "16 word list"

definition js :: "string \<Rightarrow> jsstring" where
  "js s = map of_char s"

abbreviation SLASH :: "16 word" where "SLASH \<equiv> 47"
abbreviation DOT :: "16 word" where "DOT \<equiv> 46"
abbreviation SPACE :: "16 word" where "SPACE \<equiv> 32"

abbreviation dot :: jsstring where "dot \<equiv> [DOT]"
abbreviation dotdot :: jsstring where "dotdot \<equiv> [DOT, DOT]"

text \<open>\<open>String.prototype.includes\<close>: \<open>sub\<close> occurs in \<open>s\<close> as a contiguous run.\<close>

fun str_includes :: "jsstring \<Rightarrow> jsstring \<Rightarrow> bool" where
  "str_includes [] sub = (sub = [])"
| "str_includes (c # cs) sub = (prefix sub (c # cs) \<or> str_includes cs sub)"

text \<open>\<open>String.prototype.split('/')\<close> and \<open>Array.prototype.join(sep)\<close>.\<close>

fun split_slash :: "jsstring \<Rightarrow> jsstring list" where
  "split_slash [] = [[]]"
| "split_slash (c # cs) =
     (if c = SLASH then [] # split_slash cs
      else (case split_slash cs of [] \<Rightarrow> [[c]] | x # xs \<Rightarrow> (c # x) # xs))"

fun join_with :: "jsstring \<Rightarrow> jsstring list \<Rightarrow> jsstring" where
  "join_with sep [] = []"
| "join_with sep [x] = x"
| "join_with sep (x # y # ys) = x @ sep @ join_with sep (y # ys)"

text \<open>
  The white space and line terminators that \<open>String.prototype.trim\<close> removes
  from both ends.
\<close>

definition is_js_space :: "16 word \<Rightarrow> bool" where
  "is_js_space c \<longleftrightarrow>
     c \<in> {0x09, 0x0A, 0x0B, 0x0C, 0x0D, 0x20, 0xA0, 0x1680, 0x2028, 0x2029,
          0x202F, 0x205F, 0x3000, 0xFEFF} \<or> (0x2000 \<le> c \<and> c \<le> 0x200A)"

definition trim :: "jsstring \<Rightarrow> jsstring" where
  "trim s = rev (dropWhile is_js_space (rev (dropWhile is_js_space s)))"

text \<open>
  \<open>toLowerCase\<close> restricted to the letters A to Z. The only use in the program
  compares the result with a list of ASCII extensions none of which contains the
  letter k, and the Kelvin sign is the only code unit outside ASCII whose lower case
  is an ASCII letter, so the comparison is unaffected.
\<close>

definition lower_unit :: "16 word \<Rightarrow> 16 word" where
  "lower_unit c = (if 0x41 \<le> c \<and> c \<le> 0x5A then c + 0x20 else c)"

definition toLowerCase :: "jsstring \<Rightarrow> jsstring" where
  "toLowerCase s = map lower_unit s"

text \<open>Decimal rendering of a number in a template literal.\<close>

definition digit_unit :: "nat \<Rightarrow> 16 word" where
  "digit_unit d = of_nat (48 + d)"

function show_nat :: "nat \<Rightarrow> jsstring" where
  "show_nat n = (if n < 10 then [digit_unit n] else show_nat (n div 10) @ [digit_unit (n mod 10)])"
  by pat_completeness auto
termination
  by (relation "measure id") auto

declare show_nat.simps [simp del]

definition show_int :: "int \<Rightarrow> jsstring" where
  "show_int i = (if i < 0 then js ''-'' @ show_nat (nat (- i)) else show_nat (nat i))"

text \<open>
  \<open>Buffer.byteLength(s, 'utf8')\<close>: the size of the file that
  \<open>fs.writeFile(path, s, 'utf8')\<close> produces. A surrogate pair encodes one code
  point in four bytes; an unpaired surrogate is replaced by U+FFFD (three bytes).
\<close>

definition is_high_surrogate :: "16 word \<Rightarrow> bool" where
  "is_high_surrogate c \<longleftrightarrow> 0xD800 \<le> c \<and> c \<le> 0xDBFF"

definition is_low_surrogate :: "16 word \<Rightarrow> bool" where
  "is_low_surrogate c \<longleftrightarrow> 0xDC00 \<le> c \<and> c \<le> 0xDFFF"

fun utf8_length :: "jsstring \<Rightarrow> nat" where
  "utf8_length [] = 0"
| "utf8_length [c] = (if c < 0x80 then 1 else if c < 0x800 then 2 else 3)"
| "utf8_length (c # d # cs) =
     (if c < 0x80 then 1 + utf8_length (d # cs)
      else if c < 0x800 then 2 + utf8_length (d # cs)
      else if is_high_surrogate c \<and> is_low_surrogate d then 4 + utf8_length cs
      else 3 + utf8_length (d # cs))"

section \<open>JSON values\<close>

text \<open>
  The body of a request as \<open>express.json()\<close> delivers it. An object is the list
  of its own properties in enumeration order (the order of \<open>Object.keys\<close> and
  \<open>Object.entries\<close>). The program never inspects a number beyond its truthiness,
  so a number carries an integer.
\<close>

datatype json =
    JNull
  | JBool bool
  | JNum int
  | JStr jsstring
  | JArr "json list"
  | JObj "(jsstring \<times> json) list"

fun truthy :: "json \<Rightarrow> bool" where
  "truthy JNull = False"
| "truthy (JBool b) = b"
| "truthy (JNum n) = (n \<noteq> 0)"
| "truthy (JStr s) = (s \<noteq> [])"
| "truthy (JArr xs) = True"
| "truthy (JObj kvs) = True"

section \<open>The \<open>path\<close> module (POSIX)\<close>

text \<open>
  The functions of Node's \<open>path.posix\<close> that the program calls, written on the
  segments of a path. \<open>norm_segs allowAboveRoot acc segs\<close> is Node's
  \<open>normalizeString\<close>: empty and \<open>.\<close> segments are dropped, \<open>..\<close> removes the
  last kept segment, and where there is none to remove it is kept when the path is
  relative and dropped when it is absolute.
\<close>

definition isAbsolute :: "jsstring \<Rightarrow> bool" where
  "isAbsolute p \<longleftrightarrow> p \<noteq> [] \<and> hd p = SLASH"

fun norm_segs :: "bool \<Rightarrow> jsstring list \<Rightarrow> jsstring list \<Rightarrow> jsstring list" where
  "norm_segs allow acc [] = acc"
| "norm_segs allow acc (s # ss) =
     (if s = [] \<or> s = dot then norm_segs allow acc ss
      else if s = dotdot then
        (if acc \<noteq> [] \<and> last acc \<noteq> dotdot then norm_segs allow (butlast acc) ss
         else if allow then norm_segs allow (acc @ [dotdot]) ss
         else norm_segs allow acc ss)
      else norm_segs allow (acc @ [s]) ss)"

definition normalize_segs :: "jsstring \<Rightarrow> jsstring list" where
  "normalize_segs p = norm_segs (\<not> isAbsolute p) [] (split_slash p)"

definition normalize :: "jsstring \<Rightarrow> jsstring" where
  "normalize p =
     (if p = [] then dot
      else
        let trailing = (last p = SLASH);
            r = join_with [SLASH] (normalize_segs p)
        in if r = [] then (if isAbsolute p then [SLASH] else if trailing then js ''./'' else dot)
           else (if isAbsolute p then [SLASH] else []) @ r @ (if trailing then [SLASH] else []))"

definition path_join :: "jsstring list \<Rightarrow> jsstring" where
  "path_join args =
     (let joined = join_with [SLASH] (filter (\<lambda>a. a \<noteq> []) args)
      in if joined = [] then dot else normalize joined)"

text \<open>
  \<open>path.dirname\<close>: trailing separators are ignored, the last component and the
  separator before it are cut off; the first character is never examined as a
  separator.
\<close>

definition dirname :: "jsstring \<Rightarrow> jsstring" where
  "dirname p =
     (case p of
        [] \<Rightarrow> dot
      | c # cs \<Rightarrow>
          (case dropWhile (\<lambda>x. x \<noteq> SLASH) (dropWhile (\<lambda>x. x = SLASH) (rev cs)) of
             [] \<Rightarrow> (if c = SLASH then [SLASH] else dot)
           | s # r \<Rightarrow> (if c = SLASH \<and> r = [] then js ''//'' else c # rev r)))"

text \<open>
  \<open>path.basename\<close> without suffix, and \<open>path.extname\<close>: the part of the last
  component from its last dot on, empty when there is no dot, when the only dot
  starts the component, or when the component is \<open>..\<close>.
\<close>

definition basename :: "jsstring \<Rightarrow> jsstring" where
  "basename p = rev (takeWhile (\<lambda>x. x \<noteq> SLASH) (dropWhile (\<lambda>x. x = SLASH) (rev p)))"

definition extname :: "jsstring \<Rightarrow> jsstring" where
  "extname p =
     (let b = basename p;
          after = rev (takeWhile (\<lambda>x. x \<noteq> DOT) (rev b))
      in if DOT \<notin> set b \<or> b = dotdot \<or> length after + 1 = length b then []
         else DOT # after)"

section \<open>Errors, log and the world outside the program\<close>

text \<open>
  A thrown JavaScript value. \<open>SystemError\<close> is an error raised by Node itself
  (\<open>fs\<close>, \<open>child_process\<close>); the program only ever reads its message.
\<close>

datatype js_error =
    Error jsstring
  | AppError jsstring nat
  | ReferenceError jsstring
  | TypeError jsstring
  | SyntaxError jsstring
  | SystemError jsstring

fun message :: "js_error \<Rightarrow> jsstring" where
  "message (Error m) = m"
| "message (AppError m status) = m"
| "message (ReferenceError m) = m"
| "message (TypeError m) = m"
| "message (SyntaxError m) = m"
| "message (SystemError m) = m"

text \<open>
  One call of the context logger: level, message, and the \<open>error\<close> field of the
  metadata object when the call passes one. The other metadata fields (request id,
  durations, directories) are not recorded.
\<close>

datatype level = LError | LWarn | LInfo | LDebug

type_synonym log_entry = "level \<times> jsstring \<times> jsstring option"

text \<open>
  The file system is a tree. A directory lists its entries in the order
  \<open>readdir\<close> reports them; \<open>mtime\<close> is the time of last modification in
  milliseconds. There are no symbolic links.
\<close>

datatype node =
    File int jsstring
  | Dir int "(jsstring \<times> node) list"

datatype errno = ENOENT | ENOTDIR | EEXIST | EISDIR | EPERM

datatype fs_op =
    Mkdir jsstring
  | WriteFile jsstring
  | ReadFile jsstring
  | Readdir jsstring
  | Stat jsstring
  | Rm jsstring
  | Statfs jsstring

text \<open>
  A process is the child that \<open>spawn\<close> created (numbered by the order of the
  \<open>spawn\<close> calls) or one of the processes that this child started in turn.
\<close>

datatype proc = Child nat | Descendant nat nat

text \<open>
  What a spawned command does, decided by the world: either the spawn itself fails
  (the \<open>error\<close> event), or the command runs, writes to its output streams, starts
  \<open>descendants\<close> further processes, and exits after \<open>duration\<close> milliseconds
  (\<open>None\<close>: it never exits by itself) with \<open>exit_code\<close> (\<open>None\<close>: ended by a
  signal, reported as \<open>null\<close>), leaving the file system changed by \<open>effect\<close>.
\<close>

datatype proc_run =
    SpawnFails jsstring
  | Runs (duration: "nat option") (exit_code: "int option") (stdout: jsstring) (stderr: jsstring)
      (descendants: nat) (effect: "node \<Rightarrow> node")

record world =
  root :: node
  cwd :: jsstring
  clock :: int
  fs_fault :: "fs_op \<Rightarrow> jsstring option"
  volume :: "int \<times> int \<times> int"
  log :: "log_entry list"
  exec :: "nat \<Rightarrow> jsstring \<Rightarrow> jsstring list \<Rightarrow> jsstring \<Rightarrow> proc_run"
  spawned :: "(jsstring \<times> jsstring list \<times> jsstring) list"
  signalled :: "proc list"
  live :: "proc list"
  timers :: "nat list"
  ids :: "nat \<Rightarrow> jsstring"
  ids_used :: nat
  globalThis :: "jsstring \<Rightarrow> bool"

text \<open>
  \<open>root\<close> is the directory \<open>/\<close>; \<open>cwd\<close> the working directory of the server;
  \<open>clock\<close> what \<open>Date.now()\<close> returns; \<open>fs_fault\<close> makes a file-system call
  fail with the given message whatever the tree holds (permission, I/O error, a
  file removed by someone else); \<open>volume\<close> is \<open>(bavail, bsize, blocks)\<close> of
  \<open>statfs\<close>; \<open>exec\<close> the behaviour of the n-th spawned command; \<open>spawned\<close> the
  commands spawned so far with their arguments and working directory;
  \<open>signalled\<close> the processes that were sent SIGKILL; \<open>live\<close> the processes left
  running; \<open>timers\<close> the pending timeouts, each named by the child it would kill;
  \<open>ids\<close> the identifiers \<open>nanoid()\<close> hands out; \<open>globalThis\<close> the names of the
  properties of the global object.
\<close>

text \<open>
  The configuration object of \<open>config/index.js\<close>, with the fields the modelled
  code reads.
\<close>

record config =
  previewsDir :: jsstring
  maxFiles :: int
  maxProjectSize :: int
  previewMaxAgeMs :: int
  buildTimeoutMs :: nat
  packageManager :: jsstring

text \<open>
  Library functions whose result the program passes on without the claims depending
  on it: \<open>JSON.parse\<close> (\<open>None\<close>: a \<open>SyntaxError\<close>), \<open>JSON.stringify(v, null, 2)\<close>,
  and the message Joi renders for a validation error.
\<close>

datatype joi_error =
    AnyRequired "jsstring list"
  | ObjectBase "jsstring list"
  | ObjectUnknown "jsstring list"
  | ObjectMin "jsstring list"
  | ObjectMax "jsstring list"
  | AlternativesMatch "jsstring list"

record library =
  JSON_parse :: "jsstring \<Rightarrow> json option"
  JSON_stringify :: "json \<Rightarrow> jsstring"
  joi_message :: "joi_error \<Rightarrow> jsstring"

subsection \<open>Computations that may throw\<close>

text \<open>
  An \<open>async\<close> function, awaited: it takes the world, and returns the thrown error or
  the result, and the world it leaves.
\<close>

type_synonym 'a io = "world \<Rightarrow> (js_error + 'a) \<times> world"

definition io_return :: "'a \<Rightarrow> 'a io" where
  "io_return x w = (Inr x, w)"

definition io_throw :: "js_error \<Rightarrow> 'a io" where
  "io_throw e w = (Inl e, w)"

definition io_bind :: "'a io \<Rightarrow> ('a \<Rightarrow> 'b io) \<Rightarrow> 'b io" where
  "io_bind m k w = (case m w of (Inl e, w') \<Rightarrow> (Inl e, w') | (Inr x, w') \<Rightarrow> k x w')"

definition io_catch :: "'a io \<Rightarrow> (js_error \<Rightarrow> 'a io) \<Rightarrow> 'a io" where
  "io_catch m h w = (case m w of (Inl e, w') \<Rightarrow> h e w' | (Inr x, w') \<Rightarrow> (Inr x, w'))"

definition add_log :: "log_entry \<Rightarrow> world \<Rightarrow> world" where
  "add_log entry w = w\<lparr>log := log w @ [entry]\<rparr>"

definition logger :: "level \<Rightarrow> jsstring \<Rightarrow> jsstring option \<Rightarrow> unit io" where
  "logger lvl msg meta w = (Inr (), add_log (lvl, msg, meta) w)"

definition Date_now :: "int io" where
  "Date_now w = (Inr (clock w), w)"

definition nanoid :: "jsstring io" where
  "nanoid w = (Inr (ids w (ids_used w)), w\<lparr>ids_used := Suc (ids_used w)\<rparr>)"

subsection \<open>\<open>fs/promises\<close>\<close>

text \<open>
  A path is resolved against the working directory when it is relative; \<open>.\<close> and
  \<open>..\<close> are resolved on the way, and \<open>..\<close> at the root stays at the root.
\<close>

definition fs_segments :: "world \<Rightarrow> jsstring \<Rightarrow> jsstring list" where
  "fs_segments w p =
     norm_segs False [] ((if isAbsolute p then [] else split_slash (cwd w)) @ split_slash p)"

fun lookup :: "node \<Rightarrow> jsstring list \<Rightarrow> node option" where
  "lookup n [] = Some n"
| "lookup (File t c) (s # ss) = None"
| "lookup (Dir t cs) (s # ss) = (case map_of cs s of None \<Rightarrow> None | Some ch \<Rightarrow> lookup ch ss)"

text \<open>
  \<open>mkdir\<close> with \<open>recursive: true\<close>: missing directories are created along the
  path; an existing directory is no error, a file in the way is.
\<close>

fun mkdirp :: "int \<Rightarrow> node \<Rightarrow> jsstring list \<Rightarrow> errno + node" where
  "mkdirp now (Dir t cs) [] = Inr (Dir t cs)"
| "mkdirp now (File t c) [] = Inl EEXIST"
| "mkdirp now (File t c) (s # ss) = Inl ENOTDIR"
| "mkdirp now (Dir t cs) (s # ss) =
     (case map_of cs s of
        Some ch \<Rightarrow>
          (case mkdirp now ch ss of
             Inl e \<Rightarrow> Inl e
           | Inr ch' \<Rightarrow> Inr (Dir t (AList.update s ch' cs)))
      | None \<Rightarrow>
          (case mkdirp now (Dir now []) ss of
             Inl e \<Rightarrow> Inl e
           | Inr ch' \<Rightarrow> Inr (Dir now (cs @ [(s, ch')]))))"

text \<open>
  \<open>writeFile\<close>: the parent directory must exist; an existing file is replaced, a
  directory of that name is an error.
\<close>

fun write_at :: "int \<Rightarrow> jsstring \<Rightarrow> node \<Rightarrow> jsstring list \<Rightarrow> errno + node" where
  "write_at now c n [] = Inl EISDIR"
| "write_at now c (File t c') (s # ss) = Inl ENOTDIR"
| "write_at now c (Dir t cs) [s] =
     (case map_of cs s of
        None \<Rightarrow> Inr (Dir now (cs @ [(s, File now c)]))
      | Some (File t' c') \<Rightarrow> Inr (Dir t (AList.update s (File now c) cs))
      | Some (Dir t' cs') \<Rightarrow> Inl EISDIR)"
| "write_at now c (Dir t cs) (s # s' # ss) =
     (case map_of cs s of
        None \<Rightarrow> Inl ENOENT
      | Some ch \<Rightarrow>
          (case write_at now c ch (s' # ss) of
             Inl e \<Rightarrow> Inl e
           | Inr ch' \<Rightarrow> Inr (Dir t (AList.update s ch' cs))))"

text \<open>
  \<open>rm\<close> with \<open>recursive: true, force: true\<close>: the entry and everything below
  it is removed; a missing target is no error; the root cannot be removed.
\<close>

fun rm_at :: "int \<Rightarrow> node \<Rightarrow> jsstring list \<Rightarrow> errno + node" where
  "rm_at now n [] = Inl EPERM"
| "rm_at now (File t c) (s # ss) = Inl ENOTDIR"
| "rm_at now (Dir t cs) [s] =
     (case map_of cs s of
        None \<Rightarrow> Inr (Dir t cs)
      | Some ch \<Rightarrow> Inr (Dir now (AList.delete s cs)))"
| "rm_at now (Dir t cs) (s # s' # ss) =
     (case map_of cs s of
        None \<Rightarrow> Inr (Dir t cs)
      | Some ch \<Rightarrow>
          (case rm_at now ch (s' # ss) of
             Inl e \<Rightarrow> Inl e
           | Inr ch' \<Rightarrow> Inr (Dir t (AList.update s ch' cs))))"

text \<open>The message of a system error, as Node words it.\<close>

fun errno_text :: "errno \<Rightarrow> jsstring" where
  "errno_text ENOENT = js ''ENOENT: no such file or directory''"
| "errno_text ENOTDIR = js ''ENOTDIR: not a directory''"
| "errno_text EEXIST = js ''EEXIST: file already exists''"
| "errno_text EISDIR = js ''EISDIR: illegal operation on a directory''"
| "errno_text EPERM = js ''EPERM: operation not permitted''"

definition system_error :: "errno \<Rightarrow> jsstring \<Rightarrow> jsstring \<Rightarrow> js_error" where
  "system_error e syscall p = SystemError (errno_text e @ js '', '' @ syscall @ js '' '' @ [39] @ p @ [39])"

datatype stats = Stats (isDirectory: bool) (st_size: nat) (mtimeMs: int)

fun stats_of :: "node \<Rightarrow> stats" where
  "stats_of (File t c) = Stats False (utf8_length c) t"
| "stats_of (Dir t cs) = Stats True 4096 t"

definition isFile :: "stats \<Rightarrow> bool" where
  "isFile st \<longleftrightarrow> \<not> isDirectory st"

definition fs_mkdir :: "jsstring \<Rightarrow> unit io" where
  "fs_mkdir p w =
     (case fs_fault w (Mkdir p) of
        Some m \<Rightarrow> (Inl (SystemError m), w)
      | None \<Rightarrow>
          (case mkdirp (clock w) (root w) (fs_segments w p) of
             Inl e \<Rightarrow> (Inl (system_error e (js ''mkdir'') p), w)
           | Inr r \<Rightarrow> (Inr (), w\<lparr>root := r\<rparr>)))"

definition fs_writeFile :: "jsstring \<Rightarrow> jsstring \<Rightarrow> unit io" where
  "fs_writeFile p content w =
     (case fs_fault w (WriteFile p) of
        Some m \<Rightarrow> (Inl (SystemError m), w)
      | None \<Rightarrow>
          (case write_at (clock w) content (root w) (fs_segments w p) of
             Inl e \<Rightarrow> (Inl (system_error e (js ''open'') p), w)
           | Inr r \<Rightarrow> (Inr (), w\<lparr>root := r\<rparr>)))"

definition fs_readFile :: "jsstring \<Rightarrow> jsstring io" where
  "fs_readFile p w =
     (case fs_fault w (ReadFile p) of
        Some m \<Rightarrow> (Inl (SystemError m), w)
      | None \<Rightarrow>
          (case lookup (root w) (fs_segments w p) of
             None \<Rightarrow> (Inl (system_error ENOENT (js ''open'') p), w)
           | Some (Dir t cs) \<Rightarrow> (Inl (system_error EISDIR (js ''read'') p), w)
           | Some (File t c) \<Rightarrow> (Inr c, w)))"

text \<open>
  \<open>stat\<close> and \<open>readdir\<close> are split in two: what the call answers for the node
  the path leads to (\<open>None\<close>: nothing there), and the lookup of that node.
\<close>

definition stat_of :: "jsstring \<Rightarrow> node option \<Rightarrow> stats io" where
  "stat_of p n w =
     (case fs_fault w (Stat p) of
        Some m \<Rightarrow> (Inl (SystemError m), w)
      | None \<Rightarrow>
          (case n of
             None \<Rightarrow> (Inl (system_error ENOENT (js ''stat'') p), w)
           | Some n' \<Rightarrow> (Inr (stats_of n'), w)))"

definition fs_stat :: "jsstring \<Rightarrow> stats io" where
  "fs_stat p w = stat_of p (lookup (root w) (fs_segments w p)) w"

text \<open>\<open>readdir\<close> with \<open>withFileTypes: true\<close>: name and \<open>isDirectory()\<close> of each entry.\<close>

fun is_dir :: "node \<Rightarrow> bool" where
  "is_dir (Dir t cs) = True"
| "is_dir (File t c) = False"

definition readdir_of :: "jsstring \<Rightarrow> node option \<Rightarrow> (jsstring \<times> bool) list io" where
  "readdir_of p n w =
     (case fs_fault w (Readdir p) of
        Some m \<Rightarrow> (Inl (SystemError m), w)
      | None \<Rightarrow>
          (case n of
             None \<Rightarrow> (Inl (system_error ENOENT (js ''scandir'') p), w)
           | Some (File t c) \<Rightarrow> (Inl (system_error ENOTDIR (js ''scandir'') p), w)
           | Some (Dir t cs) \<Rightarrow> (Inr (map (\<lambda>e. (fst e, is_dir (snd e))) cs), w)))"

definition fs_readdir :: "jsstring \<Rightarrow> (jsstring \<times> bool) list io" where
  "fs_readdir p w = readdir_of p (lookup (root w) (fs_segments w p)) w"

definition fs_rm :: "jsstring \<Rightarrow> unit io" where
  "fs_rm p w =
     (case fs_fault w (Rm p) of
        Some m \<Rightarrow> (Inl (SystemError m), w)
      | None \<Rightarrow>
          (case rm_at (clock w) (root w) (fs_segments w p) of
             Inl e \<Rightarrow> (Inl (system_error e (js ''rm'') p), w)
           | Inr r \<Rightarrow> (Inr (), w\<lparr>root := r\<rparr>)))"

definition fs_statfs :: "jsstring \<Rightarrow> (int \<times> int \<times> int) io" where
  "fs_statfs p w =
     (case fs_fault w (Statfs p) of
        Some m \<Rightarrow> (Inl (SystemError m), w)
      | None \<Rightarrow>
          (case lookup (root w) (fs_segments w p) of
             None \<Rightarrow> (Inl (system_error ENOENT (js ''statfs'') p), w)
           | Some n \<Rightarrow> (Inr (volume w), w)))"

section \<open>\<open>utils/fileSystem.js\<close>\<close>

abbreviation a_tilde :: "16 word" where "a_tilde \<equiv> 0xE3"
abbreviation c_cedilla :: "16 word" where "c_cedilla \<equiv> 0xE7"
abbreviation e_circ :: "16 word" where "e_circ \<equiv> 0xEA"
abbreviation o_acute :: "16 word" where "o_acute \<equiv> 0xF3"
abbreviation a_acute :: "16 word" where "a_acute \<equiv> 0xE1"
abbreviation i_acute :: "16 word" where "i_acute \<equiv> 0xED"

definition Diretorio :: jsstring where
  "Diretorio = js ''Diret'' @ [o_acute] @ js ''rio''"

definition diretorio :: jsstring where
  "diretorio = js ''diret'' @ [o_acute] @ js ''rio''"

definition ensureDirectory :: "jsstring \<Rightarrow> unit io" where
  "ensureDirectory dirPath =
     io_catch
       (io_bind (fs_mkdir dirPath) (\<lambda>_.
        logger LDebug (Diretorio @ js '' criado/verificado: '' @ dirPath) None))
       (\<lambda>error.
        io_bind (logger LError (js ''Erro ao criar '' @ diretorio @ js '' '' @ dirPath @ js '':'')
                   (Some (message error))) (\<lambda>_.
        io_throw (Error (js ''Falha ao criar '' @ diretorio @ js '': '' @ message error))))"

definition writeFileSecure :: "library \<Rightarrow> jsstring \<Rightarrow> json \<Rightarrow> unit io" where
  "writeFileSecure lib filePath content =
     io_catch
       (io_bind (ensureDirectory (dirname filePath)) (\<lambda>_.
        let fileContent = (case content of JStr s \<Rightarrow> s | _ \<Rightarrow> JSON_stringify lib content) in
        io_bind (fs_writeFile filePath fileContent) (\<lambda>_.
        logger LDebug (js ''Arquivo escrito: '' @ filePath) None)))
       (\<lambda>error.
        io_bind (logger LError (js ''Erro ao escrever arquivo '' @ filePath @ js '':'')
                   (Some (message error))) (\<lambda>_.
        io_throw (Error (js ''Falha ao escrever arquivo: '' @ message error))))"

definition directoryExists :: "jsstring \<Rightarrow> bool io" where
  "directoryExists dirPath =
     io_catch
       (io_bind (fs_stat dirPath) (\<lambda>stats. io_return (isDirectory stats)))
       (\<lambda>_. io_return False)"

definition fileExists :: "jsstring \<Rightarrow> bool io" where
  "fileExists filePath =
     io_catch
       (io_bind (fs_stat filePath) (\<lambda>stats. io_return (isFile stats)))
       (\<lambda>_. io_return False)"

text \<open>
  \<open>getDirectorySize\<close>. The recursion follows the tree: the call for a
  subdirectory is given the subtree that \<open>readdir\<close> of the joined path lists
  (the tree does not change while the size is computed). Each call has its own
  \<open>try\<close>/\<open>catch\<close>: an error inside the loop of one call ends that call with 0.
\<close>

fun getDirectorySize_at :: "jsstring \<Rightarrow> node \<Rightarrow> nat io"
  and size_loop :: "jsstring \<Rightarrow> (jsstring \<times> node) list \<Rightarrow> nat \<Rightarrow> nat io"
where
  "getDirectorySize_at dirPath (File t c) w =
     (case readdir_of dirPath (Some (File t c)) w of
        (Inl error, w') \<Rightarrow>
          (Inr 0, snd (logger LError
             (js ''Erro ao calcular tamanho do '' @ diretorio @ js '' '' @ dirPath @ js '':'')
             (Some (message error)) w'))
      | (Inr files, w') \<Rightarrow> (Inr 0, w'))"
| "getDirectorySize_at dirPath (Dir t cs) w =
     (case (case readdir_of dirPath (Some (Dir t cs)) w of
              (Inl error, w') \<Rightarrow> (Inl error, w')
            | (Inr files, w') \<Rightarrow> size_loop dirPath cs 0 w') of
        (Inl error, w') \<Rightarrow>
          (Inr 0, snd (logger LError
             (js ''Erro ao calcular tamanho do '' @ diretorio @ js '' '' @ dirPath @ js '':'')
             (Some (message error)) w'))
      | (Inr totalSize, w') \<Rightarrow> (Inr totalSize, w'))"
| "size_loop dirPath [] totalSize w = (Inr totalSize, w)"
| "size_loop dirPath (file # files) totalSize w =
     (let filePath = path_join [dirPath, fst file] in
      if is_dir (snd file) then
        (case getDirectorySize_at filePath (snd file) w of
           (Inl error, w') \<Rightarrow> (Inl error, w')
         | (Inr s, w') \<Rightarrow> size_loop dirPath files (totalSize + s) w')
      else
        (case stat_of filePath (Some (snd file)) w of
           (Inl error, w') \<Rightarrow> (Inl error, w')
         | (Inr stats, w') \<Rightarrow> size_loop dirPath files (totalSize + st_size stats) w'))"

definition getDirectorySize :: "jsstring \<Rightarrow> nat io" where
  "getDirectorySize dirPath w =
     (case lookup (root w) (fs_segments w dirPath) of
        Some n \<Rightarrow> getDirectorySize_at dirPath n w
      | None \<Rightarrow>
          (case readdir_of dirPath None w of
             (Inl error, w') \<Rightarrow>
               (Inr 0, snd (logger LError
                  (js ''Erro ao calcular tamanho do '' @ diretorio @ js '' '' @ dirPath @ js '':'')
                  (Some (message error)) w'))
           | (Inr files, w') \<Rightarrow> (Inr 0, w')))"

definition removeDirectory :: "jsstring \<Rightarrow> unit io" where
  "removeDirectory dirPath =
     io_catch
       (io_bind (fs_rm dirPath) (\<lambda>_.
        logger LDebug (Diretorio @ js '' removido: '' @ dirPath) None))
       (\<lambda>error.
        io_bind (logger LError (js ''Erro ao remover '' @ diretorio @ js '' '' @ dirPath @ js '':'')
                   (Some (message error))) (\<lambda>_.
        io_throw (Error (js ''Falha ao remover '' @ diretorio @ js '': '' @ message error))))"

text \<open>
  \<open>cleanupOldPreviews\<close>. The value a JavaScript function returns is
  \<open>undefined\<close> when it ends without a \<open>return\<close> of a value.
\<close>

datatype js_value = Undefined | Number int

fun sweep_loop :: "config \<Rightarrow> int \<Rightarrow> (jsstring \<times> bool) list \<Rightarrow> nat \<Rightarrow> nat io" where
  "sweep_loop cfg now [] cleanedCount = io_return cleanedCount"
| "sweep_loop cfg now (entry # entries) cleanedCount =
     (if snd entry then
        (let dirPath = path_join [previewsDir cfg, fst entry] in
         io_bind (fs_stat dirPath) (\<lambda>stats.
         let ageMs = now - mtimeMs stats in
         if ageMs > previewMaxAgeMs cfg then
           io_bind (removeDirectory dirPath) (\<lambda>_.
           io_bind (logger LInfo (js ''Preview antigo removido: '' @ fst entry) None) (\<lambda>_.
           sweep_loop cfg now entries (cleanedCount + 1)))
         else sweep_loop cfg now entries cleanedCount))
      else sweep_loop cfg now entries cleanedCount)"

definition cleanupOldPreviews :: "config \<Rightarrow> js_value io" where
  "cleanupOldPreviews cfg =
     io_catch
       (io_bind (directoryExists (previewsDir cfg)) (\<lambda>exists.
        if \<not> exists then io_return Undefined
        else
          io_bind (fs_readdir (previewsDir cfg)) (\<lambda>entries.
          io_bind Date_now (\<lambda>now.
          io_bind (sweep_loop cfg now entries 0) (\<lambda>cleanedCount.
          io_bind (if cleanedCount > 0
                   then logger LInfo (js ''Limpeza conclu'' @ [i_acute] @ js ''da: ''
                          @ show_nat cleanedCount @ js '' previews removidos'') None
                   else io_return ()) (\<lambda>_.
          io_return Undefined))))))
       (\<lambda>error.
        io_bind (logger LError (js ''Erro durante limpeza autom'' @ [a_acute] @ js ''tica:'')
                   (Some (message error))) (\<lambda>_.
        io_return Undefined))"

text \<open>
  \<open>checkDiskSpace\<close>. \<open>usagePercent\<close> is a number with two decimals; it is held
  as the integer number of hundredths of a percent, \<open>None\<close> when the division by a
  zero total gives no finite number. The arithmetic is exact, where the source
  computes in floating point.
\<close>

record disk_space =
  free :: int
  total :: int
  used :: int
  usagePercent :: "int option"

definition checkDiskSpace :: "config \<Rightarrow> disk_space option io" where
  "checkDiskSpace cfg =
     io_catch
       (io_bind (fs_statfs (previewsDir cfg)) (\<lambda>(bavail, bsize, blocks).
        let freeBytes = bavail * bsize;
            totalBytes = blocks * bsize;
            usedBytes = totalBytes - freeBytes
        in io_return (Some \<lparr>free = freeBytes, total = totalBytes, used = usedBytes,
             usagePercent =
               (if totalBytes = 0 then None
                else Some ((2 * (usedBytes * 10000) + totalBytes) div (2 * totalBytes)))\<rparr>)))
       (\<lambda>error.
        io_bind (logger LError (js ''Erro ao verificar espa'' @ [c_cedilla] @ js ''o em disco:'')
                   (Some (message error))) (\<lambda>_.
        io_return None))"

section \<open>\<open>utils/validation.js\<close>\<close>

text \<open>
  The custom rule of the key schema: \<open>True\<close> where the source returns the
  value, \<open>False\<close> where it returns \<open>helpers.error('any.invalid')\<close>.
\<close>

definition safe_file_path :: "jsstring \<Rightarrow> bool" where
  "safe_file_path value =
     (if str_includes value dotdot \<or> isAbsolute value then False
      else if normalize value \<noteq> value \<and> \<not> str_includes value [SLASH] then False
      else True)"

text \<open>
  \<open>buildPayloadSchema.validate\<close>, as Joi evaluates the schema. \<open>Joi.string()\<close>
  accepts a non-empty string, and \<open>max(n)\<close> without an encoding bounds its length
  in characters; \<open>Joi.object()\<close> accepts an object that is not an array. A key of
  \<open>files\<close> that the key schema does not match is an unknown key, which an object
  schema rejects. Validation stops at the first error.
\<close>

definition key_matches :: "jsstring \<Rightarrow> bool" where
  "key_matches k \<longleftrightarrow> k \<noteq> [] \<and> safe_file_path k"

fun content_matches :: "json \<Rightarrow> bool" where
  "content_matches (JStr s) = (s \<noteq> [] \<and> length s \<le> 1024 * 1024)"
| "content_matches (JObj kvs) = True"
| "content_matches v = False"

definition validate_files :: "json \<Rightarrow> joi_error option" where
  "validate_files v =
     (case v of
        JObj entries \<Rightarrow>
          (case find (\<lambda>e. key_matches (fst e) \<and> \<not> content_matches (snd e)) entries of
             Some e \<Rightarrow> Some (AlternativesMatch [js ''files'', fst e])
           | None \<Rightarrow>
               (case find (\<lambda>e. \<not> key_matches (fst e)) entries of
                  Some e \<Rightarrow> Some (ObjectUnknown [js ''files'', fst e])
                | None \<Rightarrow>
                    if length entries < 1 then Some (ObjectMin [js ''files''])
                    else if length entries > 100 then Some (ObjectMax [js ''files''])
                    else None))
      | _ \<Rightarrow> Some (ObjectBase [js ''files'']))"

definition buildPayloadSchema_validate :: "json \<Rightarrow> joi_error + json" where
  "buildPayloadSchema_validate body =
     (case body of
        JObj kvs \<Rightarrow>
          (case map_of kvs (js ''files'') of
             None \<Rightarrow> Inl (AnyRequired [js ''files''])
           | Some v \<Rightarrow>
               (case validate_files v of
                  Some error \<Rightarrow> Inl error
                | None \<Rightarrow>
                    (case find (\<lambda>e. fst e \<noteq> js ''files'') kvs of
                       Some e \<Rightarrow> Inl (ObjectUnknown [fst e])
                     | None \<Rightarrow> Inr body)))
      | _ \<Rightarrow> Inl (ObjectBase []))"

text \<open>\<open>const { files } = value\<close>: the entries of the validated \<open>files\<close> object.\<close>

definition get_files :: "json \<Rightarrow> (jsstring \<times> json) list" where
  "get_files value =
     (case value of
        JObj kvs \<Rightarrow> (case map_of kvs (js ''files'') of Some (JObj entries) \<Rightarrow> entries | _ \<Rightarrow> [])
      | _ \<Rightarrow> [])"

definition allowedExtensions :: "jsstring list" where
  "allowedExtensions = map js
     [''.js'', ''.jsx'', ''.ts'', ''.tsx'', ''.json'', ''.html'', ''.css'', ''.scss'', ''.sass'',
      ''.vue'', ''.svelte'', ''.astro'', ''.md'', ''.mdx'', ''.txt'', ''.env'', ''.gitignore'',
      ''.yml'', ''.yaml'', ''.toml'', ''.xml'', ''.svg'', ''.ico'', ''.png'', ''.jpg'', ''.jpeg'',
      ''.gif'', ''.webp'', ''.woff'', ''.woff2'', ''.ttf'', ''.eot'']"

definition validateFileExtension :: "jsstring \<Rightarrow> bool" where
  "validateFileExtension filePath =
     (let ext = toLowerCase (extname filePath)
      in ext \<in> set allowedExtensions \<or> ext = [])"

definition mainConfigs :: "jsstring list" where
  "mainConfigs = map js
     [''package.json'', ''vite.config.js'', ''vite.config.ts'', ''astro.config.mjs'',
      ''astro.config.js'']"

definition validateProjectStructure :: "(jsstring \<times> json) list \<Rightarrow> js_error + bool" where
  "validateProjectStructure files =
     (let fileKeys = map fst files;
          hasMainConfig = list_ex (\<lambda>file. file \<in> set mainConfigs) fileKeys
      in if \<not> hasMainConfig then
           Inl (Error (js ''Projeto deve conter pelo menos um arquivo de configura''
                  @ [c_cedilla, a_tilde] @ js ''o principal (package.json, vite.config.js, etc.)''))
         else
           (case find (\<lambda>filePath. \<not> validateFileExtension filePath) fileKeys of
              Some filePath \<Rightarrow>
                Inl (Error (js ''Extens'' @ [a_tilde] @ js ''o de arquivo n'' @ [a_tilde]
                       @ js ''o permitida: '' @ extname filePath))
            | None \<Rightarrow> Inr True))"

section \<open>\<open>services/buildService.js\<close>\<close>

subsection \<open>Processes and timers\<close>

definition spawn :: "jsstring \<Rightarrow> jsstring list \<Rightarrow> jsstring \<Rightarrow> (nat \<times> proc_run) io" where
  "spawn cmd args dir w =
     (let child = length (spawned w);
          run = exec w child cmd args dir
      in (Inr (child, run),
          w\<lparr>spawned := spawned w @ [(cmd, args, dir)],
            live := live w @
              (case run of
                 SpawnFails m \<Rightarrow> []
               | Runs d code so se desc eff \<Rightarrow> Child child # map (Descendant child) [1..<Suc desc])\<rparr>))"

definition setTimeout :: "nat \<Rightarrow> unit io" where
  "setTimeout child w = (Inr (), w\<lparr>timers := timers w @ [child]\<rparr>)"

definition clearTimeout :: "nat \<Rightarrow> unit io" where
  "clearTimeout child w = (Inr (), w\<lparr>timers := removeAll child (timers w)\<rparr>)"

text \<open>The timer expires after \<open>timeoutMs\<close> and is no longer pending.\<close>

definition timer_fires :: "nat \<Rightarrow> nat \<Rightarrow> unit io" where
  "timer_fires child timeoutMs w =
     (Inr (), w\<lparr>timers := removeAll child (timers w), clock := clock w + int timeoutMs\<rparr>)"

text \<open>
  \<open>child.kill('SIGKILL')\<close>: the signal goes to the child process alone. The child
  was spawned without \<open>detached\<close>, so it leads no process group of its own, and
  Node signals the one process.
\<close>

definition child_kill :: "nat \<Rightarrow> unit io" where
  "child_kill child w =
     (Inr (), w\<lparr>signalled := signalled w @ [Child child],
               live := removeAll (Child child) (live w)\<rparr>)"

text \<open>
  The command ends by itself after \<open>d\<close> milliseconds: the child and the processes
  it started are gone, and what it wrote is on the file system.
\<close>

fun in_tree :: "nat \<Rightarrow> proc \<Rightarrow> bool" where
  "in_tree child (Child c) = (c = child)"
| "in_tree child (Descendant c k) = (c = child)"

definition child_exits :: "nat \<Rightarrow> nat \<Rightarrow> (node \<Rightarrow> node) \<Rightarrow> unit io" where
  "child_exits child d eff w =
     (Inr (), w\<lparr>live := filter (\<lambda>p. \<not> in_tree child p) (live w),
               root := eff (root w), clock := clock w + int d\<rparr>)"

definition command_line :: "jsstring \<Rightarrow> jsstring list \<Rightarrow> jsstring" where
  "command_line cmd args = cmd @ js '' '' @ join_with (js '' '') args"

definition show_code :: "int option \<Rightarrow> jsstring" where
  "show_code code = (case code of None \<Rightarrow> js ''null'' | Some n \<Rightarrow> show_int n)"

definition codigo :: jsstring where
  "codigo = js ''c'' @ [o_acute] @ js ''digo''"

text \<open>The \<open>data\<close> handler of an output stream; the output arrives as one chunk.\<close>

definition on_data :: "jsstring \<Rightarrow> jsstring \<Rightarrow> unit io" where
  "on_data label output =
     (if output = [] then io_return () else logger LDebug (label @ trim output) None)"

subsection \<open>\<open>runCommand\<close>\<close>

text \<open>
  The errors the promise is rejected with, and the three callbacks that settle
  it. \<open>on_timeout\<close> is the function
  given to \<open>setTimeout\<close>: it sets \<open>isTimedOut\<close>, kills the child and rejects.
  \<open>on_close\<close> is the \<open>close\<close> handler, \<open>on_spawn_error\<close> the \<open>error\<close>
  handler. After the timer has fired, the \<open>close\<close> event of the killed child
  finds \<open>isTimedOut\<close> set, clears the timer once more and returns; the promise
  keeps the rejection of \<open>on_timeout\<close>.
\<close>

definition timeout_error :: "nat \<Rightarrow> jsstring \<Rightarrow> jsstring list \<Rightarrow> js_error" where
  "timeout_error timeoutMs cmd args =
     Error (js ''Comando expirou ap'' @ [o_acute] @ js ''s '' @ show_nat timeoutMs
            @ js ''ms: '' @ command_line cmd args)"

definition close_error :: "int option \<Rightarrow> jsstring \<Rightarrow> jsstring \<Rightarrow> js_error" where
  "close_error code out err =
     Error (js ''Comando falhou ('' @ codigo @ js '' '' @ show_code code
            @ js ''): '' @ (if trim err \<noteq> [] then trim err else trim out))"

definition spawn_error :: "jsstring \<Rightarrow> js_error" where
  "spawn_error m = Error (js ''Erro ao executar comando: '' @ m)"

definition on_timeout :: "nat \<Rightarrow> jsstring \<Rightarrow> jsstring list \<Rightarrow> nat \<Rightarrow> (jsstring \<times> jsstring) io" where
  "on_timeout child cmd args timeoutMs =
     io_bind (child_kill child) (\<lambda>_.
     io_bind (clearTimeout child) (\<lambda>_.
     io_throw (timeout_error timeoutMs cmd args)))"

definition on_close :: "nat \<Rightarrow> jsstring \<Rightarrow> int option \<Rightarrow> jsstring \<Rightarrow> jsstring \<Rightarrow> (jsstring \<times> jsstring) io" where
  "on_close child cmd code out err =
     io_bind (clearTimeout child) (\<lambda>_.
     if code \<noteq> Some 0 then
       io_bind (logger LError (js ''Comando falhou com '' @ codigo @ js '' ''
                  @ show_code code @ js '':'') None) (\<lambda>_.
       io_throw (close_error code out err))
     else
       io_bind (logger LInfo (js ''Comando executado com sucesso: '' @ cmd) None) (\<lambda>_.
       io_return (trim out, trim err)))"

definition on_spawn_error :: "nat \<Rightarrow> jsstring \<Rightarrow> (jsstring \<times> jsstring) io" where
  "on_spawn_error child m =
     io_bind (clearTimeout child) (\<lambda>_.
     io_bind (logger LError (js ''Erro ao executar comando:'') (Some m)) (\<lambda>_.
     io_throw (spawn_error m)))"

text \<open>
  The \<open>close\<close> event comes before the timer when the command ends in less than
  \<open>timeoutMs\<close>; a command that ends at \<open>timeoutMs\<close> exactly is taken to lose
  the race, and one that never ends by itself always does.
\<close>

definition runCommand :: "jsstring \<Rightarrow> jsstring list \<Rightarrow> jsstring \<Rightarrow> nat \<Rightarrow> (jsstring \<times> jsstring) io" where
  "runCommand cmd args projectDir timeoutMs =
     io_bind (logger LInfo (js ''Executando comando: '' @ command_line cmd args) None) (\<lambda>_.
     io_bind (spawn cmd args projectDir) (\<lambda>(child, run).
     io_bind (setTimeout child) (\<lambda>_.
     (case run of
        SpawnFails m \<Rightarrow> on_spawn_error child m
      | Runs d code out err desc eff \<Rightarrow>
          io_bind (on_data (js ''STDOUT: '') out) (\<lambda>_.
          io_bind (on_data (js ''STDERR: '') err) (\<lambda>_.
          (case d of
             Some t \<Rightarrow>
               if t < timeoutMs then
                 io_bind (child_exits child t eff) (\<lambda>_.
                 on_close child cmd code out err)
               else
                 io_bind (timer_fires child timeoutMs) (\<lambda>_.
                 on_timeout child cmd args timeoutMs)
           | None \<Rightarrow>
               io_bind (timer_fires child timeoutMs) (\<lambda>_.
               on_timeout child cmd args timeoutMs))))))))"

subsection \<open>\<open>detectProjectType\<close>\<close>

text \<open>
  \<open>{ ...packageJson.dependencies, ...packageJson.devDependencies }\<close>. Reading a
  property of \<open>null\<close> throws; any other value that is not an object has no such
  property. Spreading a value that is not an object adds at most index keys, which
  the lookups below never ask for.
\<close>

definition own_props :: "json option \<Rightarrow> (jsstring \<times> json) list" where
  "own_props v = (case v of Some (JObj kvs) \<Rightarrow> kvs | _ \<Rightarrow> [])"

definition merged_deps :: "json \<Rightarrow> js_error + (jsstring \<times> json) list" where
  "merged_deps packageJson =
     (case packageJson of
        JNull \<Rightarrow> Inl (TypeError (js ''Cannot read properties of null (reading ''
                  @ [39] @ js ''dependencies'' @ [39] @ js '')''))
      | JObj kvs \<Rightarrow>
          Inr (own_props (map_of kvs (js ''devDependencies''))
               @ own_props (map_of kvs (js ''dependencies'')))
      | _ \<Rightarrow> Inr [])"

definition has_dep :: "(jsstring \<times> json) list \<Rightarrow> jsstring \<Rightarrow> bool" where
  "has_dep deps name = (case map_of deps name of None \<Rightarrow> False | Some v \<Rightarrow> truthy v)"

definition type_from_deps :: "(jsstring \<times> json) list \<Rightarrow> jsstring" where
  "type_from_deps deps =
     (if has_dep deps (js ''astro'') then js ''astro''
      else if has_dep deps (js ''vite'') \<or> has_dep deps (js ''@vitejs/plugin-react'') then js ''vite''
      else if has_dep deps (js ''react'') then js ''react''
      else if has_dep deps (js ''vue'') then js ''vue''
      else if has_dep deps (js ''svelte'') then js ''svelte''
      else js ''generic'')"

definition io_or :: "bool io \<Rightarrow> bool io \<Rightarrow> bool io" where
  "io_or a b = io_bind a (\<lambda>x. if x then io_return True else b)"

definition detectProjectType :: "library \<Rightarrow> jsstring \<Rightarrow> jsstring io" where
  "detectProjectType lib projectDir =
     (let packageJsonPath = path_join [projectDir, js ''package.json''] in
      io_bind (fileExists packageJsonPath) (\<lambda>found.
      io_bind
        (if found then
           io_catch
             (io_bind (fs_readFile packageJsonPath) (\<lambda>text.
              case JSON_parse lib text of
                None \<Rightarrow> io_throw (SyntaxError (js ''Unexpected token''))
              | Some packageJson \<Rightarrow>
                  (case merged_deps packageJson of
                     Inl e \<Rightarrow> io_throw e
                   | Inr deps \<Rightarrow> io_return (Some (type_from_deps deps)))))
             (\<lambda>error.
              io_bind (logger LWarn (js ''Erro ao ler package.json:'') (Some (message error))) (\<lambda>_.
              io_return None))
         else io_return None) (\<lambda>fromManifest.
      case fromManifest of
        Some projectType \<Rightarrow> io_return projectType
      | None \<Rightarrow>
          io_bind (io_or (fileExists (path_join [projectDir, js ''astro.config.mjs'']))
                         (fileExists (path_join [projectDir, js ''astro.config.js'']))) (\<lambda>astro.
          if astro then io_return (js ''astro'')
          else
            io_bind (io_or (fileExists (path_join [projectDir, js ''vite.config.js'']))
                           (fileExists (path_join [projectDir, js ''vite.config.ts'']))) (\<lambda>vite.
            if vite then io_return (js ''vite'') else io_return (js ''generic''))))))"

subsection \<open>\<open>installDependencies\<close>\<close>

definition dependencias :: jsstring where
  "dependencias = js ''depend'' @ [e_circ] @ js ''ncias''"

definition installDependencies :: "config \<Rightarrow> jsstring \<Rightarrow> unit io" where
  "installDependencies cfg projectDir =
     io_bind (logger LInfo (js ''Instalando '' @ dependencias @ js ''...'') None) (\<lambda>_.
     io_catch
       (let installCmd = packageManager cfg;
            installArgs = (if packageManager cfg = js ''npm''
                           then [js ''install'', js ''--silent''] else [js ''install''])
        in
        io_bind
          (io_catch
             (if packageManager cfg = js ''pnpm'' then
                io_bind (runCommand (js ''which'') [js ''pnpm''] projectDir 5000) (\<lambda>_.
                io_bind (runCommand installCmd installArgs projectDir (buildTimeoutMs cfg)) (\<lambda>_.
                io_return ()))
              else
                io_bind (runCommand installCmd installArgs projectDir (buildTimeoutMs cfg)) (\<lambda>_.
                io_return ()))
             (\<lambda>error.
              if packageManager cfg = js ''pnpm'' then
                io_bind (logger LWarn (js ''pnpm falhou, tentando com npm...'')
                           (Some (message error))) (\<lambda>_.
                io_bind (runCommand (js ''npm'') [js ''install'', js ''--silent''] projectDir
                           (buildTimeoutMs cfg)) (\<lambda>_.
                io_return ()))
              else io_throw error)) (\<lambda>_.
        logger LInfo (js ''Depend'' @ [e_circ] @ js ''ncias instaladas com sucesso'') None))
       (\<lambda>error.
        io_bind (logger LError (js ''Erro ao instalar '' @ dependencias @ js '':'')
                   (Some (message error))) (\<lambda>_.
        io_throw (Error (js ''Falha na instala'' @ [c_cedilla, a_tilde] @ js ''o de ''
                   @ dependencias @ js '': '' @ message error)))))"

subsection \<open>\<open>runBuild\<close>\<close>

fun find_dist :: "jsstring \<Rightarrow> jsstring list \<Rightarrow> jsstring option io" where
  "find_dist projectDir [] = io_return None"
| "find_dist projectDir (dir # dirs) =
     io_bind (directoryExists (path_join [projectDir, dir])) (\<lambda>found.
     if found then io_return (Some dir) else find_dist projectDir dirs)"

definition runBuild :: "library \<Rightarrow> config \<Rightarrow> jsstring \<Rightarrow> (jsstring \<times> jsstring) io" where
  "runBuild lib cfg projectDir =
     io_bind (logger LInfo (js ''Iniciando processo de build...'') None) (\<lambda>_.
     io_catch
       (io_bind (detectProjectType lib projectDir) (\<lambda>projectType.
        io_bind (logger LInfo (js ''Tipo de projeto detectado: '' @ projectType) None) (\<lambda>_.
        io_bind (runCommand (js ''which'') [js ''node''] projectDir 5000) (\<lambda>_.
        io_bind (runCommand (js ''which'') [js ''npm''] projectDir 5000) (\<lambda>_.
        io_bind (installDependencies cfg projectDir) (\<lambda>_.
        io_bind (runCommand (js ''npm'') [js ''run'', js ''build''] projectDir
                   (buildTimeoutMs cfg)) (\<lambda>_.
        io_bind (find_dist projectDir [js ''dist'', js ''build'', js ''out'', js ''.next'']) (\<lambda>distDir.
        case distDir of
          None \<Rightarrow>
            io_throw (Error (Diretorio @ js '' de build n'' @ [a_tilde]
              @ js ''o encontrado. Verifique se o script de build est'' @ [a_acute]
              @ js '' configurado corretamente.''))
        | Some dir \<Rightarrow>
            io_bind (logger LInfo (js ''Build conclu'' @ [i_acute] @ js ''do com sucesso. ''
                       @ Diretorio @ js '': '' @ dir) None) (\<lambda>_.
            io_return (projectType, dir))))))))))
       (\<lambda>error.
        io_bind (logger LError (js ''Erro durante o processo de build:'')
                   (Some (message error))) (\<lambda>_.
        io_throw error)))"

section \<open>\<open>routes/build.js\<close>\<close>

record request =
  body :: json
  protocol :: jsstring
  host :: jsstring

text \<open>The \<open>data\<close> object of the success response.\<close>

record response =
  data_projectId :: jsstring
  data_url :: jsstring
  data_projectType :: jsstring
  data_buildTime :: int
  data_fileCount :: nat
  data_projectSize :: int

text \<open>How the handler ends: \<open>res.json(...)\<close> or \<open>next(error)\<close>.\<close>

datatype outcome = Responded response | Passed js_error

text \<open>
  The names that are bound where the handler calls \<open>runBuild\<close>: the parameters
  and the \<open>let\<close> and \<open>const\<close> declarations of the handler, and the imports and
  constants of the module. An identifier that is not among them is looked up on
  the global object, and evaluating it throws a \<open>ReferenceError\<close> when it is not
  there either.
\<close>

definition build_route_scope :: "jsstring list" where
  "build_route_scope = map js
     [''req'', ''res'', ''next'', ''startTime'', ''projectId'', ''projectDir'',
      ''diskSpace'', ''error'', ''value'', ''files'', ''fileCount'', ''writePromises'',
      ''projectSize'', ''buildResult'', ''previewUrl'', ''duration'',
      ''express'', ''nanoid'', ''path'', ''createContextLogger'', ''buildPayloadSchema'',
      ''validateProjectStructure'', ''writeFileSecure'', ''ensureDirectory'',
      ''getDirectorySize'', ''checkDiskSpace'', ''removeDirectory'', ''runBuild'',
      ''AppError'', ''config'', ''router'', ''logger'']"

definition resolve_identifier :: "jsstring \<Rightarrow> bool io" where
  "resolve_identifier name w = (Inr (name \<in> set build_route_scope \<or> globalThis w name), w)"

text \<open>\<open>Math.round(n / 1024 / 1024)\<close> for an integer \<open>n\<close>.\<close>

definition round_mb :: "int \<Rightarrow> int" where
  "round_mb n = (n + 524288) div 1048576"

definition disk_full :: "disk_space option \<Rightarrow> bool" where
  "disk_full diskSpace =
     (case diskSpace of
        None \<Rightarrow> False
      | Some d \<Rightarrow> (case usagePercent d of None \<Rightarrow> False | Some p \<Rightarrow> p > 9000))"

text \<open>Lines 20 to 47: everything before a project identifier is drawn.\<close>

definition check_request :: "library \<Rightarrow> config \<Rightarrow> request \<Rightarrow> ((jsstring \<times> json) list \<times> nat) io" where
  "check_request lib cfg req =
     io_bind (logger LInfo (js ''Nova requisi'' @ [c_cedilla, a_tilde] @ js ''o de build recebida'')
                None) (\<lambda>_.
     io_bind (checkDiskSpace cfg) (\<lambda>diskSpace.
     if disk_full diskSpace then
       io_throw (AppError (js ''Espa'' @ [c_cedilla] @ js ''o em disco insuficiente'') 507)
     else
       (case buildPayloadSchema_validate (body req) of
          Inl error \<Rightarrow>
            io_throw (AppError (js ''Erro de valida'' @ [c_cedilla, a_tilde] @ js ''o: ''
                        @ joi_message lib error) 400)
        | Inr value \<Rightarrow>
            (let files = get_files value in
             case validateProjectStructure files of
               Inl e \<Rightarrow> io_throw e
             | Inr ok \<Rightarrow>
                 (let fileCount = length files in
                  if int fileCount > maxFiles cfg then
                    io_throw (AppError (js ''Muitos arquivos: '' @ show_nat fileCount @ js ''. M''
                                @ [a_acute] @ js ''ximo permitido: '' @ show_int (maxFiles cfg)) 400)
                  else io_return (files, fileCount))))))"

text \<open>
  Lines 62 to 68. The writes are started together and \<open>Promise.all\<close> rejects
  with the first failure while the others go on; here they run one after the
  other in the order of the entries, every one of them is attempted, and the error
  kept is that of the first entry that fails.
\<close>

fun stage_files :: "library \<Rightarrow> jsstring \<Rightarrow> (jsstring \<times> json) list \<Rightarrow> unit io" where
  "stage_files lib projectDir [] w = (Inr (), w)"
| "stage_files lib projectDir (entry # entries) w =
     (let fullPath = path_join [projectDir, fst entry] in
      case writeFileSecure lib fullPath (snd entry) w of
        (Inl error, w') \<Rightarrow> (Inl error, snd (stage_files lib projectDir entries w'))
      | (Inr done, w') \<Rightarrow> stage_files lib projectDir entries w')"

text \<open>
  Lines 53 to 71: the project directory is created, the files are written, and the
  size of the directory is measured.
\<close>

definition stage_project :: "library \<Rightarrow> jsstring \<Rightarrow> (jsstring \<times> json) list \<Rightarrow> nat io" where
  "stage_project lib projectDir files =
     io_bind (logger LInfo (js ''Iniciando cria'' @ [c_cedilla, a_tilde] @ js ''o do projeto'')
                None) (\<lambda>_.
     io_bind (ensureDirectory projectDir) (\<lambda>_.
     io_bind (stage_files lib projectDir files) (\<lambda>_.
     getDirectorySize projectDir)))"

text \<open>Lines 53 to 109: from the creation of the project directory to the response.\<close>

definition build_project ::
  "library \<Rightarrow> config \<Rightarrow> request \<Rightarrow> int \<Rightarrow> jsstring \<Rightarrow> jsstring \<Rightarrow> (jsstring \<times> json) list \<Rightarrow> nat \<Rightarrow> response io"
where
  "build_project lib cfg req startTime projectId projectDir files fileCount =
     io_bind (stage_project lib projectDir files) (\<lambda>projectSize.
     if int projectSize > maxProjectSize cfg then
       io_throw (AppError (js ''Projeto muito grande: '' @ show_int (round_mb (int projectSize))
                   @ js ''MB. M'' @ [a_acute] @ js ''ximo: ''
                   @ show_int (round_mb (maxProjectSize cfg)) @ js ''MB'') 413)
     else
       io_bind (logger LInfo (js ''Arquivos escritos, iniciando build'') None) (\<lambda>_.
       io_bind (resolve_identifier (js ''id'')) (\<lambda>bound.
       io_bind (if bound then runBuild lib cfg projectDir
                else io_throw (ReferenceError (js ''id is not defined''))) (\<lambda>buildResult.
       let previewUrl = protocol req @ js ''://'' @ host req @ js ''/preview/'' @ projectId
                          @ js ''/'' @ snd buildResult @ js ''/'' in
       io_bind Date_now (\<lambda>now.
       let elapsed = now - startTime in
       io_bind (logger LInfo (js ''Build conclu'' @ [i_acute] @ js ''do com sucesso'') None) (\<lambda>_.
       io_return \<lparr>data_projectId = projectId, data_url = previewUrl,
                   data_projectType = fst buildResult, data_buildTime = elapsed,
                   data_fileCount = fileCount,
                   data_projectSize = round_mb (int projectSize)\<rparr>))))))"

text \<open>The \<open>catch\<close> block, with the value \<open>projectDir\<close> has when it is entered.\<close>

definition on_error :: "int \<Rightarrow> jsstring option \<Rightarrow> js_error \<Rightarrow> outcome io" where
  "on_error startTime projectDir error =
     io_bind Date_now (\<lambda>now.
     io_bind (logger LError (js ''Erro durante build:'') (Some (message error))) (\<lambda>_.
     io_bind
       (case projectDir of
          None \<Rightarrow> io_return ()
        | Some dir \<Rightarrow>
            io_catch
              (io_bind (removeDirectory dir) (\<lambda>_.
               logger LDebug (Diretorio @ js '' de projeto removido ap'' @ [o_acute] @ js ''s erro'')
                 None))
              (\<lambda>cleanupError.
               logger LError (js ''Erro ao limpar '' @ diretorio @ js '' ap'' @ [o_acute]
                                @ js ''s falha:'') (Some (message cleanupError)))) (\<lambda>_.
     io_return (Passed error))))"

text \<open>
  The handler of \<open>POST /build\<close>. \<open>projectId\<close> and \<open>projectDir\<close> are \<open>null\<close>
  until line 50 and set from line 51 on, so the one \<open>try\<close> block is entered in
  two parts, each with the \<open>catch\<close> block as it finds \<open>projectDir\<close>.
\<close>

definition post_build :: "library \<Rightarrow> config \<Rightarrow> request \<Rightarrow> outcome io" where
  "post_build lib cfg req =
     io_bind Date_now (\<lambda>startTime.
     io_bind (io_catch
                (io_bind (check_request lib cfg req) (\<lambda>checked. io_return (Inr checked)))
                (\<lambda>error. io_bind (on_error startTime None error) (\<lambda>passed. io_return (Inl passed))))
       (\<lambda>checked.
        case checked of
          Inl passed \<Rightarrow> io_return passed
        | Inr (files, fileCount) \<Rightarrow>
            io_bind nanoid (\<lambda>projectId.
            let projectDir = path_join [previewsDir cfg, projectId] in
            io_catch
              (io_bind (build_project lib cfg req startTime projectId projectDir files fileCount)
                 (\<lambda>data. io_return (Responded data)))
              (\<lambda>error. on_error startTime (Some projectDir) error))))"

section \<open>Notions used in the statements\<close>

text \<open>
  A command ends before its timer when it ends by itself in less than
  \<open>timeoutMs\<close>; \<open>run_ok\<close> is a run that \<open>runCommand\<close> resolves, and
  \<open>run_error\<close> the error it rejects with otherwise.
\<close>

definition ends_before :: "nat option \<Rightarrow> nat \<Rightarrow> bool" where
  "ends_before d timeoutMs = (case d of None \<Rightarrow> False | Some t \<Rightarrow> t < timeoutMs)"

definition run_ok :: "proc_run \<Rightarrow> nat \<Rightarrow> bool" where
  "run_ok run timeoutMs =
     (case run of
        SpawnFails m \<Rightarrow> False
      | Runs d code out err desc eff \<Rightarrow> ends_before d timeoutMs \<and> code = Some 0)"

definition run_error :: "jsstring \<Rightarrow> jsstring list \<Rightarrow> nat \<Rightarrow> proc_run \<Rightarrow> js_error" where
  "run_error cmd args timeoutMs run =
     (case run of
        SpawnFails m \<Rightarrow> spawn_error m
      | Runs d code out err desc eff \<Rightarrow>
          if ends_before d timeoutMs then close_error code out err
          else timeout_error timeoutMs cmd args)"

text \<open>The error \<open>installDependencies\<close> throws for an inner error with message \<open>m\<close>.\<close>

definition install_failed :: "jsstring \<Rightarrow> js_error" where
  "install_failed m =
     Error (js ''Falha na instala'' @ [c_cedilla, a_tilde] @ js ''o de '' @ dependencias
            @ js '': '' @ m)"

text \<open>Entries of \<open>spawned\<close>: the install commands, run in \<open>dir\<close>.\<close>

abbreviation which_pnpm :: "jsstring \<Rightarrow> jsstring \<times> jsstring list \<times> jsstring" where
  "which_pnpm dir \<equiv> (js ''which'', [js ''pnpm''], dir)"

abbreviation pnpm_install :: "jsstring \<Rightarrow> jsstring \<times> jsstring list \<times> jsstring" where
  "pnpm_install dir \<equiv> (js ''pnpm'', [js ''install''], dir)"

abbreviation npm_install :: "jsstring \<Rightarrow> jsstring \<times> jsstring list \<times> jsstring" where
  "npm_install dir \<equiv> (js ''npm'', [js ''install'', js ''--silent''], dir)"

text \<open>
  Frame conditions. \<open>fs_step w w'\<close>: from \<open>w\<close> to \<open>w'\<close> nothing but the file
  tree and the log has changed; \<open>only_logged\<close>: nothing but the log. A
  computation \<open>touches_fs_only\<close> or \<open>logs_only\<close> when every run of it is such a
  step.
\<close>

definition fs_step :: "world \<Rightarrow> world \<Rightarrow> bool" where
  "fs_step w w' \<longleftrightarrow>
     cwd w' = cwd w \<and> clock w' = clock w \<and> fs_fault w' = fs_fault w \<and> volume w' = volume w \<and>
     exec w' = exec w \<and> spawned w' = spawned w \<and> signalled w' = signalled w \<and> live w' = live w \<and>
     timers w' = timers w \<and> ids w' = ids w \<and> ids_used w' = ids_used w \<and>
     globalThis w' = globalThis w"

definition only_logged :: "world \<Rightarrow> world \<Rightarrow> bool" where
  "only_logged w w' \<longleftrightarrow> root w' = root w \<and> fs_step w w'"

definition touches_fs_only :: "'a io \<Rightarrow> bool" where
  "touches_fs_only m \<longleftrightarrow> (\<forall>w. fs_step w (snd (m w)))"

definition logs_only :: "'a io \<Rightarrow> bool" where
  "logs_only m \<longleftrightarrow> (\<forall>w. only_logged w (snd (m w)))"

subsection \<open>Example worlds\<close>

text \<open>
  A server in \<open>/srv\<close> with an empty \<open>/srv/previews\<close>, 25 hours after the
  epoch of its clock; every command succeeds within 10 ms.
\<close>

definition lib0 :: library where
  "lib0 = \<lparr>JSON_parse = (\<lambda>s. None), JSON_stringify = (\<lambda>v. js ''{}''),
            joi_message = (\<lambda>e. js ''invalid'')\<rparr>"

definition cfg_pnpm :: config where
  "cfg_pnpm = \<lparr>previewsDir = js ''/srv/previews'', maxFiles = 100, maxProjectSize = 104857600,
     previewMaxAgeMs = 86400000, buildTimeoutMs = 300000, packageManager = js ''pnpm''\<rparr>"

definition cfg_yarn :: config where
  "cfg_yarn = cfg_pnpm\<lparr>packageManager := js ''yarn''\<rparr>"

definition w_base :: world where
  "w_base = \<lparr>root = Dir 0 [(js ''srv'', Dir 0 [(js ''previews'', Dir 0 [])])], cwd = js ''/srv'',
     clock = 90000000, fs_fault = (\<lambda>op. None), volume = (50, 4096, 100), log = [],
     exec = (\<lambda>n cmd args dir. Runs (Some 10) (Some 0) [] [] 0 id),
     spawned = [], signalled = [], live = [], timers = [], ids = (\<lambda>n. js ''abc''), ids_used = 0,
     globalThis = (\<lambda>name. False)\<rparr>"

text \<open>Every \<open>which\<close> succeeds, every other command exits with code 1.\<close>

definition w_install_fails :: world where
  "w_install_fails = w_base\<lparr>exec := (\<lambda>n cmd args dir.
      if cmd = js ''which'' then Runs (Some 10) (Some 0) [] [] 0 id
      else Runs (Some 10) (Some 1) [] (js ''boom'') 0 id)\<rparr>"

text \<open>Every command starts one further process and never ends by itself.\<close>

definition w_hang :: world where
  "w_hang = w_base\<lparr>exec := (\<lambda>n cmd args dir. Runs None None [] [] 1 id)\<rparr>"

abbreviation workspace_abc :: jsstring where
  "workspace_abc \<equiv> js ''/srv/previews/abc''"

text \<open>A well-formed request with two files, and the entries of its \<open>files\<close>.\<close>

definition files_ok :: "(jsstring \<times> json) list" where
  "files_ok = [(js ''package.json'', JObj []), (js ''src/main.jsx'', JStr (js ''hello''))]"

definition req_ok :: request where
  "req_ok = \<lparr>body = JObj [(js ''files'', JObj files_ok)], protocol = js ''http'',
              host = js ''localhost''\<rparr>"

text \<open>A request with a key that leaves the workspace.\<close>

definition req_escape :: request where
  "req_escape = \<lparr>body = JObj [(js ''files'', JObj [(js ''package.json'', JObj []),
                   (js ''../evil.txt'', JStr (js ''x''))])],
                 protocol = js ''http'', host = js ''localhost''\<rparr>"

text \<open>Removing \<open>/srv/previews/abc\<close> fails.\<close>

definition w_rm_fails :: world where
  "w_rm_fails = w_base\<lparr>fs_fault := (\<lambda>op. if op = Rm workspace_abc then Some (js ''EACCES'') else None)\<rparr>"

text \<open>The bytes of all the files below a node.\<close>

fun tree_size :: "node \<Rightarrow> nat" and entries_size :: "(jsstring \<times> node) list \<Rightarrow> nat" where
  "tree_size (File t c) = utf8_length c"
| "tree_size (Dir t cs) = entries_size cs"
| "entries_size [] = 0"
| "entries_size (e # es) = tree_size (snd e) + entries_size es"

text \<open>
  Listing \<open>/srv/previews/abc/src\<close> fails; the workspace holds a file of two
  bytes beside that directory. And a configuration that allows one byte.
\<close>

definition w_src_unreadable :: world where
  "w_src_unreadable = w_base\<lparr>
     root := Dir 0 [(js ''srv'', Dir 0 [(js ''previews'', Dir 0 [(js ''abc'', Dir 0
       [(js ''package.json'', File 0 (js ''{}'')),
        (js ''src'', Dir 0 [(js ''main.jsx'', File 0 (js ''hello''))])])])])],
     fs_fault := (\<lambda>op. if op = Readdir (js ''/srv/previews/abc/src'') then Some (js ''EACCES'') else None)\<rparr>"

definition w_workspace_unreadable :: world where
  "w_workspace_unreadable = w_src_unreadable\<lparr>
     fs_fault := (\<lambda>op. if op = Readdir workspace_abc then Some (js ''EACCES'') else None)\<rparr>"

definition w_file_unreadable :: world where
  "w_file_unreadable = w_src_unreadable\<lparr>
     fs_fault := (\<lambda>op. if op = Stat (js ''/srv/previews/abc/package.json'') then Some (js ''ENOENT'') else None)\<rparr>"

definition cfg_tiny :: config where
  "cfg_tiny = cfg_pnpm\<lparr>maxProjectSize := 1\<rparr>"

text \<open>
  A name a directory entry can have, and a path segment that normalisation keeps.
\<close>

definition valid_name :: "jsstring \<Rightarrow> bool" where
  "valid_name name \<longleftrightarrow> name \<noteq> [] \<and> SLASH \<notin> set name \<and> name \<noteq> dot \<and> name \<noteq> dotdot"

definition kept_segment :: "jsstring \<Rightarrow> bool" where
  "kept_segment s \<longleftrightarrow> s \<noteq> [] \<and> s \<noteq> dot"

section \<open>Basic facts\<close>

lemmas io_defs = io_bind_def io_catch_def io_return_def io_throw_def logger_def

lemma add_log_simps [simp]:
  "spawned (add_log e w) = spawned w" "exec (add_log e w) = exec w" "root (add_log e w) = root w"
  "timers (add_log e w) = timers w" "signalled (add_log e w) = signalled w" "live (add_log e w) = live w"
  "cwd (add_log e w) = cwd w" "clock (add_log e w) = clock w" "fs_fault (add_log e w) = fs_fault w"
  "globalThis (add_log e w) = globalThis w" "ids (add_log e w) = ids w" "ids_used (add_log e w) = ids_used w"
  "volume (add_log e w) = volume w" "log (add_log e w) = log w @ [e]"
  by (simp_all add: add_log_def)

lemma utf8_two: "0x80 \<le> c \<Longrightarrow> c < 0x800 \<Longrightarrow> utf8_length (c # cs) = 2 + utf8_length cs"
  by (cases cs) auto

lemma utf8_replicate: "utf8_length (replicate n (0xE9 :: 16 word)) = 2 * n"
  by (induction n) (simp_all add: utf8_two)

lemma utf8_ge_length: "length s \<le> utf8_length s"
  by (induction s rule: utf8_length.induct) auto

subsection \<open>\<open>runCommand\<close>\<close>

lemma on_data_run:
  "on_data l out w = (Inr (), if out = [] then w else add_log (LDebug, l @ trim out, None) w)"
  by (simp add: on_data_def io_defs)

lemmas run_defs = runCommand_def on_timeout_def on_close_def on_spawn_error_def on_data_run
  spawn_def setTimeout_def clearTimeout_def timer_fires_def child_kill_def child_exits_def

lemma timeout_not_close: "timeout_error timeoutMs cmd args \<noteq> close_error code out err"
  by (simp add: timeout_error_def close_error_def js_def)

lemma runCommand_spawned:
  "spawned (snd (runCommand cmd args dir t w)) = spawned w @ [(cmd, args, dir)]"
  by (simp add: run_defs io_defs Let_def split: proc_run.splits option.splits)

lemma runCommand_exec:
  "exec (snd (runCommand cmd args dir t w)) = exec w"
  by (simp add: run_defs io_defs Let_def split: proc_run.splits option.splits)

lemma runCommand_ok:
  "run_ok (exec w (length (spawned w)) cmd args dir) t \<Longrightarrow>
   \<exists>x. fst (runCommand cmd args dir t w) = Inr x"
proof (cases "exec w (length (spawned w)) cmd args dir")
  case (SpawnFails m)
  assume "run_ok (exec w (length (spawned w)) cmd args dir) t"
  with SpawnFails show ?thesis by (simp add: run_ok_def)
next
  case (Runs d code out err desc eff)
  assume "run_ok (exec w (length (spawned w)) cmd args dir) t"
  with Runs obtain u where "d = Some u" "u < t" "code = Some 0"
    by (auto simp: run_ok_def ends_before_def split: option.splits)
  with Runs show ?thesis
    by (simp add: run_defs io_defs Let_def)
qed

lemma runCommand_fail:
  "\<not> run_ok (exec w (length (spawned w)) cmd args dir) t \<Longrightarrow>
   fst (runCommand cmd args dir t w) =
     Inl (run_error cmd args t (exec w (length (spawned w)) cmd args dir))"
proof (cases "exec w (length (spawned w)) cmd args dir")
  case (SpawnFails m)
  then show ?thesis by (simp add: run_defs io_defs Let_def run_error_def)
next
  case (Runs d code out err desc eff)
  assume no: "\<not> run_ok (exec w (length (spawned w)) cmd args dir) t"
  show ?thesis
  proof (cases "ends_before d t")
    case True
    then obtain u where "d = Some u" "u < t"
      by (auto simp: ends_before_def split: option.splits)
    moreover from no Runs True have "code \<noteq> Some 0" by (simp add: run_ok_def)
    ultimately show ?thesis using Runs True
      by (simp add: run_defs io_defs Let_def run_error_def)
  next
    case False
    with Runs show ?thesis
      by (simp add: run_defs io_defs Let_def run_error_def ends_before_def split: option.splits)
  qed
qed

subsection \<open>\<open>installDependencies\<close> and \<open>runBuild\<close>\<close>

lemma installDependencies_pnpm:
  assumes pm: "packageManager cfg = js ''pnpm''"
    and n: "n = length (spawned w)"
    and r1: "r1 = exec w n (js ''which'') [js ''pnpm''] dir"
    and r2: "r2 = exec w (Suc n) (js ''pnpm'') [js ''install''] dir"
    and r3: "r3 = exec w (n + (if run_ok r1 5000 then 2 else 1)) (js ''npm'')
                    [js ''install'', js ''--silent''] dir"
  shows "spawned (snd (installDependencies cfg dir w)) =
           spawned w @ [which_pnpm dir]
             @ (if run_ok r1 5000 then [pnpm_install dir] else [])
             @ (if run_ok r1 5000 \<and> run_ok r2 (buildTimeoutMs cfg) then [] else [npm_install dir])
       \<and> fst (installDependencies cfg dir w) =
           (if (run_ok r1 5000 \<and> run_ok r2 (buildTimeoutMs cfg)) \<or> run_ok r3 (buildTimeoutMs cfg)
            then Inr ()
            else Inl (install_failed (message (run_error (js ''npm'')
                        [js ''install'', js ''--silent''] (buildTimeoutMs cfg) r3))))"
proof -
  let ?T = "buildTimeoutMs cfg"
  let ?w0 = "add_log (LInfo, js ''Instalando '' @ dependencias @ js ''...'', None) w"
  let ?warn = "\<lambda>e. add_log (LWarn, js ''pnpm falhou, tentando com npm...'', Some (message e))"
  let ?npm = "runCommand (js ''npm'') [js ''install'', js ''--silent''] dir ?T"
  obtain a1 w1 where c1: "runCommand (js ''which'') [js ''pnpm''] dir 5000 ?w0 = (a1, w1)"
    by force
  have s1: "spawned w1 = spawned w @ [which_pnpm dir]" and e1: "exec w1 = exec w"
    using runCommand_spawned[of "js ''which''" "[js ''pnpm'']" dir 5000 ?w0]
      runCommand_exec[of "js ''which''" "[js ''pnpm'']" dir 5000 ?w0] c1 by simp_all
  obtain a2 w2 where c2: "runCommand (js ''pnpm'') [js ''install''] dir ?T w1 = (a2, w2)"
    by force
  have s2: "spawned w2 = spawned w1 @ [pnpm_install dir]" and e2: "exec w2 = exec w"
    using runCommand_spawned[of "js ''pnpm''" "[js ''install'']" dir ?T w1]
      runCommand_exec[of "js ''pnpm''" "[js ''install'']" dir ?T w1] c2 e1 by simp_all
  have ok1: "run_ok r1 5000 \<Longrightarrow> \<exists>x. a1 = Inr x"
    using runCommand_ok[of ?w0 "js ''which''" "[js ''pnpm'']" dir 5000] c1 r1 n by simp
  have ko1: "\<not> run_ok r1 5000 \<Longrightarrow> \<exists>e. a1 = Inl e"
    using runCommand_fail[of ?w0 "js ''which''" "[js ''pnpm'']" dir 5000] c1 r1 n by simp
  have ok2: "run_ok r2 ?T \<Longrightarrow> \<exists>x. a2 = Inr x"
    using runCommand_ok[of w1 "js ''pnpm''" "[js ''install'']" dir ?T] c2 r2 n s1 e1 by simp
  have ko2: "\<not> run_ok r2 ?T \<Longrightarrow> \<exists>e. a2 = Inl e"
    using runCommand_fail[of w1 "js ''pnpm''" "[js ''install'']" dir ?T] c2 r2 n s1 e1 by simp
  have fb: "spawned (snd (?npm (?warn e wf))) = spawned w @ pre @ [npm_install dir]
     \<and> (run_ok r3 ?T \<longrightarrow> (\<exists>x. fst (?npm (?warn e wf)) = Inr x))
     \<and> (\<not> run_ok r3 ?T \<longrightarrow> fst (?npm (?warn e wf)) =
           Inl (run_error (js ''npm'') [js ''install'', js ''--silent''] ?T r3))"
    if "spawned wf = spawned w @ pre" "exec wf = exec w"
      "length pre = (if run_ok r1 5000 then 2 else 1)" for pre e wf
    using that runCommand_spawned[of "js ''npm''" "[js ''install'', js ''--silent'']" dir ?T]
      runCommand_ok[of _ "js ''npm''" "[js ''install'', js ''--silent'']" dir ?T]
      runCommand_fail[of _ "js ''npm''" "[js ''install'', js ''--silent'']" dir ?T] r3 n
    by (auto simp: add.commute)
  have npm: "js ''pnpm'' \<noteq> js ''npm''" by (simp add: js_def)
  note unf = installDependencies_def logger_def io_bind_def io_catch_def io_return_def
    io_throw_def Let_def pm npm
  consider (A) "run_ok r1 5000" "run_ok r2 ?T" | (B) "run_ok r1 5000" "\<not> run_ok r2 ?T"
    | (C) "\<not> run_ok r1 5000" by blast
  then show ?thesis
  proof cases
    case A
    from ok1[OF A(1)] ok2[OF A(2)] obtain x1 x2 where "a1 = Inr x1" "a2 = Inr x2" by blast
    with c1 c2 A s1 s2 show ?thesis
      by (simp add: unf)
  next
    case B
    from ok1[OF B(1)] ko2[OF B(2)] obtain x1 e2 where a: "a1 = Inr x1" "a2 = Inl e2" by blast
    have "length [which_pnpm dir, pnpm_install dir] = (if run_ok r1 5000 then 2 else 1)"
      using B by simp
    from fb[OF _ e2 this, of e2] s1 s2
    have f: "spawned (snd (?npm (?warn e2 w2))) =
               spawned w @ [which_pnpm dir, pnpm_install dir] @ [npm_install dir]"
      and g: "run_ok r3 ?T \<longrightarrow> (\<exists>x. fst (?npm (?warn e2 w2)) = Inr x)"
      and h: "\<not> run_ok r3 ?T \<longrightarrow> fst (?npm (?warn e2 w2)) =
                Inl (run_error (js ''npm'') [js ''install'', js ''--silent''] ?T r3)"
      by simp_all
    obtain a3 w3 where c3: "?npm (?warn e2 w2) = (a3, w3)" by force
    show ?thesis
    proof (cases "run_ok r3 ?T")
      case True
      with g c3 obtain x3 where "a3 = Inr x3" by auto
      with c1 c2 c3 a B f True show ?thesis by (simp add: unf)
    next
      case False
      with h c3 have "a3 = Inl (run_error (js ''npm'') [js ''install'', js ''--silent''] ?T r3)"
        by auto
      with c1 c2 c3 a B f False show ?thesis by (simp add: unf install_failed_def)
    qed
  next
    case C
    from ko1[OF C] obtain e1' where a: "a1 = Inl e1'" by blast
    have "length [which_pnpm dir] = (if run_ok r1 5000 then 2 else 1)"
      using C by simp
    from fb[OF _ e1 this, of e1'] s1
    have f: "spawned (snd (?npm (?warn e1' w1))) =
               spawned w @ [which_pnpm dir] @ [npm_install dir]"
      and g: "run_ok r3 ?T \<longrightarrow> (\<exists>x. fst (?npm (?warn e1' w1)) = Inr x)"
      and h: "\<not> run_ok r3 ?T \<longrightarrow> fst (?npm (?warn e1' w1)) =
                Inl (run_error (js ''npm'') [js ''install'', js ''--silent''] ?T r3)"
      by simp_all
    obtain a3 w3 where c3: "?npm (?warn e1' w1) = (a3, w3)" by force
    show ?thesis
    proof (cases "run_ok r3 ?T")
      case True
      with g c3 obtain x3 where "a3 = Inr x3" by auto
      with c1 c3 a C f True show ?thesis by (simp add: unf)
    next
      case False
      with h c3 have "a3 = Inl (run_error (js ''npm'') [js ''install'', js ''--silent''] ?T r3)"
        by auto
      with c1 c3 a C f False show ?thesis by (simp add: unf install_failed_def)
    qed
  qed
qed

lemma runBuild_install_fails:
  assumes "detectProjectType lib dir
             (add_log (LInfo, js ''Iniciando processo de build...'', None) v) = (Inr ty, v1)"
    and "runCommand (js ''which'') [js ''node''] dir 5000
           (add_log (LInfo, js ''Tipo de projeto detectado: '' @ ty, None) v1) = (Inr o1, v2)"
    and "runCommand (js ''which'') [js ''npm''] dir 5000 v2 = (Inr o2, v3)"
    and "installDependencies cfg dir v3 = (Inl e, v4)"
  shows "runBuild lib cfg dir v =
           (Inl e, add_log (LError, js ''Erro durante o processo de build:'', Some (message e)) v4)"
  using assms by (simp add: runBuild_def io_defs)

subsection \<open>Evaluation of the example worlds\<close>

lemmas eval_defs = cfg_pnpm_def cfg_yarn_def w_base_def w_install_fails_def w_hang_def lib0_def
  run_ok_def run_error_def ends_before_def js_def

subsection \<open>Frame conditions\<close>

lemma fs_step_refl [simp]: "fs_step w w"
  by (simp add: fs_step_def)

lemma fs_step_trans: "fs_step w w' \<Longrightarrow> fs_step w' w'' \<Longrightarrow> fs_step w w''"
  by (simp add: fs_step_def)

lemma only_logged_refl [simp]: "only_logged w w"
  by (simp add: only_logged_def)

lemma only_logged_trans: "only_logged w w' \<Longrightarrow> only_logged w' w'' \<Longrightarrow> only_logged w w''"
  by (simp add: only_logged_def fs_step_def)

lemma fs_step_add_log [simp]: "fs_step w (add_log e w') = fs_step w w'"
  by (simp add: fs_step_def)

lemma only_logged_add_log [simp]: "only_logged w (add_log e w') = only_logged w w'"
  by (simp add: only_logged_def)

lemma logs_only_touches: "logs_only m \<Longrightarrow> touches_fs_only m"
  by (simp add: logs_only_def touches_fs_only_def only_logged_def)

lemma touches_bind [intro]:
  assumes "touches_fs_only m" "\<And>x. touches_fs_only (k x)"
  shows "touches_fs_only (io_bind m k)"
  unfolding touches_fs_only_def
proof
  fix w
  obtain r w' where mw: "m w = (r, w')" by force
  with assms(1) have s: "fs_step w w'" by (auto simp: touches_fs_only_def dest: spec[of _ w])
  show "fs_step w (snd (io_bind m k w))"
  proof (cases r)
    case (Inl e) with mw s show ?thesis by (simp add: io_bind_def)
  next
    case (Inr x)
    from assms(2)[of x] have "fs_step w' (snd (k x w'))" by (simp add: touches_fs_only_def)
    with Inr mw s show ?thesis by (auto simp: io_bind_def intro: fs_step_trans)
  qed
qed

lemma touches_catch [intro]:
  assumes "touches_fs_only m" "\<And>e. touches_fs_only (h e)"
  shows "touches_fs_only (io_catch m h)"
  unfolding touches_fs_only_def
proof
  fix w
  obtain r w' where mw: "m w = (r, w')" by force
  with assms(1) have s: "fs_step w w'" by (auto simp: touches_fs_only_def dest: spec[of _ w])
  show "fs_step w (snd (io_catch m h w))"
  proof (cases r)
    case (Inr x) with mw s show ?thesis by (simp add: io_catch_def)
  next
    case (Inl e)
    from assms(2)[of e] have "fs_step w' (snd (h e w'))" by (simp add: touches_fs_only_def)
    with Inl mw s show ?thesis by (auto simp: io_catch_def intro: fs_step_trans)
  qed
qed

lemma logs_bind [intro]:
  assumes "logs_only m" "\<And>x. logs_only (k x)"
  shows "logs_only (io_bind m k)"
  unfolding logs_only_def
proof
  fix w
  obtain r w' where mw: "m w = (r, w')" by force
  with assms(1) have s: "only_logged w w'" by (auto simp: logs_only_def dest: spec[of _ w])
  show "only_logged w (snd (io_bind m k w))"
  proof (cases r)
    case (Inl e) with mw s show ?thesis by (simp add: io_bind_def)
  next
    case (Inr x)
    from assms(2)[of x] have "only_logged w' (snd (k x w'))" by (simp add: logs_only_def)
    with Inr mw s show ?thesis by (auto simp: io_bind_def intro: only_logged_trans)
  qed
qed

lemma logs_catch [intro]:
  assumes "logs_only m" "\<And>e. logs_only (h e)"
  shows "logs_only (io_catch m h)"
  unfolding logs_only_def
proof
  fix w
  obtain r w' where mw: "m w = (r, w')" by force
  with assms(1) have s: "only_logged w w'" by (auto simp: logs_only_def dest: spec[of _ w])
  show "only_logged w (snd (io_catch m h w))"
  proof (cases r)
    case (Inr x) with mw s show ?thesis by (simp add: io_catch_def)
  next
    case (Inl e)
    from assms(2)[of e] have "only_logged w' (snd (h e w'))" by (simp add: logs_only_def)
    with Inl mw s show ?thesis by (auto simp: io_catch_def intro: only_logged_trans)
  qed
qed

lemma logs_basic [intro, simp]:
  "logs_only (io_return x)" "logs_only (io_throw e)" "logs_only (logger l m meta)" "logs_only Date_now"
  by (simp_all add: logs_only_def io_defs Date_now_def)

lemma touches_basic [intro, simp]:
  "touches_fs_only (io_return x)" "touches_fs_only (io_throw e)" "touches_fs_only (logger l m meta)"
  "touches_fs_only Date_now"
  by (simp_all add: logs_only_touches)

lemma logs_if [intro]: "logs_only a \<Longrightarrow> logs_only b \<Longrightarrow> logs_only (if c then a else b)"
  by simp
lemma touches_if [intro]: "touches_fs_only a \<Longrightarrow> touches_fs_only b \<Longrightarrow> touches_fs_only (if c then a else b)"
  by simp

lemma logs_reads [intro, simp]:
  "logs_only (fs_stat p)" "logs_only (fs_readdir p)" "logs_only (fs_readFile p)" "logs_only (fs_statfs p)"
  "logs_only (stat_of p n)" "logs_only (readdir_of p n)"
  by (simp_all add: logs_only_def fs_stat_def stat_of_def fs_readdir_def readdir_of_def
      fs_readFile_def fs_statfs_def split: option.splits node.splits sum.splits)

lemma touches_writes [intro, simp]:
  "touches_fs_only (fs_mkdir p)" "touches_fs_only (fs_writeFile p c)" "touches_fs_only (fs_rm p)"
  by (simp_all add: touches_fs_only_def fs_step_def fs_mkdir_def fs_writeFile_def fs_rm_def
      split: option.splits sum.splits)

lemma logs_directoryExists [intro, simp]: "logs_only (directoryExists p)" "logs_only (fileExists p)"
  by (auto simp: directoryExists_def fileExists_def)

lemma logs_checkDiskSpace [intro, simp]: "logs_only (checkDiskSpace cfg)"
  unfolding checkDiskSpace_def
  by (intro logs_catch logs_bind logs_reads logs_basic) (auto simp: Let_def split: prod.splits)

lemma touches_ensureDirectory [intro, simp]: "touches_fs_only (ensureDirectory p)"
  by (auto simp: ensureDirectory_def)

lemma touches_writeFileSecure [intro, simp]: "touches_fs_only (writeFileSecure lib p c)"
  by (auto simp: writeFileSecure_def Let_def)

lemma touches_removeDirectory [intro, simp]: "touches_fs_only (removeDirectory p)"
  by (auto simp: removeDirectory_def)

lemma logs_check_request [intro, simp]: "logs_only (check_request lib cfg req)"
  unfolding check_request_def
  by (intro logs_bind logs_basic logs_checkDiskSpace logs_if)
     (auto simp: Let_def split: sum.splits)

lemma touches_stage_files [intro, simp]: "touches_fs_only (stage_files lib dir files)"
  unfolding touches_fs_only_def
proof
  fix w show "fs_step w (snd (stage_files lib dir files w))"
  proof (induction files arbitrary: w)
    case Nil then show ?case by simp
  next
    case (Cons entry entries)
    obtain r w' where a: "writeFileSecure lib (path_join [dir, fst entry]) (snd entry) w = (r, w')"
      by force
    have "fs_step w w'"
      using touches_writeFileSecure[of lib "path_join [dir, fst entry]" "snd entry"] a
      by (auto simp: touches_fs_only_def dest: spec[of _ w])
    with Cons.IH[of w'] a show ?case
      by (cases r) (auto simp: Let_def intro: fs_step_trans)
  qed
qed

lemma getDirectorySize_at_total:
  "(\<exists>k. fst (getDirectorySize_at dirPath n w) = Inr k) \<and> only_logged w (snd (getDirectorySize_at dirPath n w))"
  and size_loop_logs: "only_logged w (snd (size_loop dirPath es acc w))"
proof (induction dirPath n w and dirPath es acc w rule: getDirectorySize_at_size_loop.induct)
  case (1 dirPath t c w)
  then show ?case
    by (simp add: readdir_of_def logger_def split: option.splits)
next
  case (2 dirPath t cs w)
  show ?case
  proof (cases "fs_fault w (Readdir dirPath)")
    case None
    then have rd: "(Inr (map (\<lambda>e. (fst e, is_dir (snd e))) cs), w) = readdir_of dirPath (Some (Dir t cs)) w"
      by (simp add: readdir_of_def)
    from 2[OF rd refl] rd[symmetric] show ?thesis
      by (auto simp: logger_def split: prod.splits sum.splits)
  next
    case (Some m)
    then show ?thesis by (simp add: readdir_of_def logger_def)
  qed
next
  case (3 dirPath totalSize w)
  then show ?case by simp
next
  case (4 dirPath ent rest totalSize w)
  let ?p = "path_join [dirPath, fst ent]"
  show ?case
  proof (cases "is_dir (snd ent)")
    case True
    obtain r w' where a: "getDirectorySize_at ?p (snd ent) w = (r, w')" by force
    with 4(1)[OF refl True] obtain k where r: "r = Inr k" and l: "only_logged w w'" by auto
    from 4(2)[OF refl True a[symmetric] r] have "only_logged w' (snd (size_loop dirPath rest (totalSize + k) w'))"
      by simp
    with a r l True show ?thesis by (auto simp: Let_def intro: only_logged_trans)
  next
    case False
    obtain r w' where a: "stat_of ?p (Some (snd ent)) w = (r, w')" by force
    have l: "only_logged w w'" using logs_reads(5)[of ?p "Some (snd ent)"] a
      by (auto simp: logs_only_def dest: spec[of _ w])
    show ?thesis
    proof (cases r)
      case (Inl e)
      with a l False show ?thesis by (simp add: Let_def)
    next
      case (Inr st)
      from 4(3)[OF refl False a[symmetric] Inr] have "only_logged w' (snd (size_loop dirPath rest (totalSize + st_size st) w'))"
        by simp
      with a Inr l False show ?thesis by (auto simp: Let_def intro: only_logged_trans)
    qed
  qed
qed

lemma getDirectorySize_total:
  "\<exists>k. fst (getDirectorySize dirPath w) = Inr k"
  using getDirectorySize_at_total[of dirPath _ w]
  by (auto simp: getDirectorySize_def readdir_of_def logger_def split: option.splits)

lemma logs_getDirectorySize [intro, simp]: "logs_only (getDirectorySize dirPath)"
  using getDirectorySize_at_total
  by (auto simp: logs_only_def getDirectorySize_def readdir_of_def logger_def split: option.splits)

lemma on_error_result: "fst (on_error startTime projectDir error w) = Inr (Passed error)"
  by (auto simp: on_error_def io_defs Date_now_def split: option.splits prod.splits sum.splits)

lemma logs_on_error_None [intro, simp]: "logs_only (on_error startTime None error)"
  by (auto simp: on_error_def)

lemma touches_on_error [intro, simp]: "touches_fs_only (on_error startTime projectDir error)"
  unfolding on_error_def
  by (cases projectDir; simp;
      intro touches_bind touches_catch touches_basic touches_removeDirectory)

subsection \<open>The handler\<close>

lemma touches_stage_project [intro, simp]: "touches_fs_only (stage_project lib dir files)"
  unfolding stage_project_def
  by (intro touches_bind touches_basic touches_ensureDirectory touches_stage_files
      logs_only_touches logs_getDirectorySize)

lemma touchesD: "touches_fs_only m \<Longrightarrow> m w = (r, w') \<Longrightarrow> fs_step w w'"
  by (auto simp: touches_fs_only_def dest: spec[of _ w])

lemma logsD: "logs_only m \<Longrightarrow> m w = (r, w') \<Longrightarrow> only_logged w w'"
  by (auto simp: logs_only_def dest: spec[of _ w])

lemma id_unbound: "js ''id'' \<notin> set build_route_scope"
  by (simp add: build_route_scope_def js_def)

lemma build_project_after_staging:
  assumes "\<not> globalThis w (js ''id'')"
    and "stage_project lib projectDir files w = (Inr projectSize, w')"
    and "int projectSize \<le> maxProjectSize cfg"
  shows "build_project lib cfg req startTime projectId projectDir files fileCount w =
           (Inl (ReferenceError (js ''id is not defined'')),
            add_log (LInfo, js ''Arquivos escritos, iniciando build'', None) w')"
proof -
  from touchesD[OF touches_stage_project assms(2)] have "globalThis w' = globalThis w"
    by (simp add: fs_step_def)
  with assms show ?thesis
    by (simp add: build_project_def io_defs resolve_identifier_def id_unbound)
qed

lemma build_project_fails:
  assumes "\<not> globalThis w (js ''id'')"
  shows "\<exists>e. fst (build_project lib cfg req startTime projectId projectDir files fileCount w) = Inl e"
proof -
  obtain r w' where s: "stage_project lib projectDir files w = (r, w')" by force
  show ?thesis
  proof (cases r)
    case (Inl e)
    with s show ?thesis by (simp add: build_project_def io_defs)
  next
    case (Inr projectSize)
    show ?thesis
    proof (cases "int projectSize \<le> maxProjectSize cfg")
      case True
      from build_project_after_staging[OF assms s[unfolded Inr] True] show ?thesis by simp
    next
      case False
      with s Inr show ?thesis by (simp add: build_project_def io_defs)
    qed
  qed
qed

lemma check_request_world:
  assumes "check_request lib cfg req w = (r, w')"
  shows "only_logged w w'"
  using logsD[OF logs_check_request assms] .

lemma post_build_passes:
  assumes "\<not> globalThis w (js ''id'')"
  shows "\<exists>error. fst (post_build lib cfg req w) = Inr (Passed error)"
proof -
  obtain r w0 where c: "check_request lib cfg req w = (r, w0)" by force
  from check_request_world[OF c] have g: "globalThis w0 = globalThis w"
    by (simp add: only_logged_def fs_step_def)
  show ?thesis
  proof (cases r)
    case (Inl e)
    with c on_error_result[of "clock w" None e w0] show ?thesis
      by (auto simp: post_build_def io_defs Date_now_def split: prod.splits sum.splits)
  next
    case (Inr checked)
    obtain files fileCount where ch: "checked = (files, fileCount)" by force
    let ?w1 = "w0\<lparr>ids_used := Suc (ids_used w0)\<rparr>"
    let ?pid = "ids w0 (ids_used w0)"
    let ?dir = "path_join [previewsDir cfg, ?pid]"
    have "\<not> globalThis ?w1 (js ''id'')" using g assms by simp
    from build_project_fails[OF this, of lib cfg req "clock w" ?pid ?dir files fileCount]
    obtain e where e: "fst (build_project lib cfg req (clock w) ?pid ?dir files fileCount ?w1) = Inl e"
      by blast
    obtain w2 where w2: "build_project lib cfg req (clock w) ?pid ?dir files fileCount ?w1 = (Inl e, w2)"
      using e by (cases "build_project lib cfg req (clock w) ?pid ?dir files fileCount ?w1") auto
    from c Inr ch w2 on_error_result[of "clock w" "Some ?dir" e w2] show ?thesis
      by (auto simp: post_build_def io_defs Date_now_def nanoid_def Let_def split: prod.splits sum.splits)
  qed
qed

lemma post_build_after_check:
  assumes "check_request lib cfg req w = (Inr (files, fileCount), w0)"
    and "nanoid w0 = (Inr projectId, w0')"
    and "projectDir = path_join [previewsDir cfg, projectId]"
    and "build_project lib cfg req (clock w) projectId projectDir files fileCount w0' = (Inl error, w1)"
  shows "post_build lib cfg req w = on_error (clock w) (Some projectDir) error w1"
  using assms by (simp add: post_build_def io_defs Date_now_def Let_def)

lemmas fs_eval = ensureDirectory_def writeFileSecure_def fs_mkdir_def fs_writeFile_def fs_rm_def
  removeDirectory_def getDirectorySize_def readdir_of_def stat_of_def fs_stat_def fs_readdir_def
  fs_statfs_def checkDiskSpace_def disk_full_def directoryExists_def fileExists_def
  path_join_def normalize_def normalize_segs_def dirname_def isAbsolute_def fs_segments_def
  add_log_def Date_now_def nanoid_def Let_def

lemmas validation_eval = buildPayloadSchema_validate_def validate_files_def key_matches_def
  safe_file_path_def get_files_def validateProjectStructure_def validateFileExtension_def
  extname_def basename_def toLowerCase_def lower_unit_def allowedExtensions_def mainConfigs_def

lemma check_req_ok:
  "fst (check_request lib0 cfg_pnpm req_ok w_base) = Inr (files_ok, 2)"
  by (simp add: check_request_def req_ok_def files_ok_def io_defs fs_eval validation_eval eval_defs)

lemma stage_ok:
  "fst (stage_project lib0 workspace_abc files_ok w) = Inr 7"
  if "w = snd (nanoid (snd (check_request lib0 cfg_pnpm req_ok w_base)))"
  unfolding that
  by (simp add: stage_project_def check_request_def req_ok_def files_ok_def io_defs fs_eval validation_eval eval_defs)


lemma prod_fst_snd: "fst p = a \<Longrightarrow> p = (a, snd p)"
  by (cases p) simp

lemma str_includes_prefix: "prefix sub s \<Longrightarrow> str_includes s sub"
  by (cases s) auto

lemma str_includes_Cons: "str_includes cs sub \<Longrightarrow> str_includes (c # cs) sub"
  by simp

lemma split_slash_nonempty [simp]: "split_slash s \<noteq> []"
  by (induction s) (auto split: list.splits)

lemma split_slash_hd_prefix: "prefix (hd (split_slash s)) s"
  by (induction s) (auto split: list.splits)

lemma split_slash_includes: "seg \<in> set (split_slash s) \<Longrightarrow> str_includes s seg"
proof (induction s arbitrary: seg)
  case Nil
  then show ?case by simp
next
  case (Cons c cs)
  show ?case
  proof (cases "c = SLASH")
    case True
    with Cons.prems have "seg = [] \<or> seg \<in> set (split_slash cs)" by simp
    then show ?thesis using Cons.IH by auto
  next
    case False
    obtain x xs where sp: "split_slash cs = x # xs" by (cases "split_slash cs") auto
    with False Cons.prems have "seg = c # x \<or> seg \<in> set xs" by simp
    then show ?thesis
    proof
      assume "seg = c # x"
      moreover have "prefix x cs" using split_slash_hd_prefix[of cs] sp by simp
      ultimately show ?thesis by simp
    next
      assume "seg \<in> set xs"
      then have "seg \<in> set (split_slash cs)" using sp by simp
      from Cons.IH[OF this] show ?thesis by simp
    qed
  qed
qed

lemma unsafe_key_rejected:
  "dotdot \<in> set (split_slash k) \<or> isAbsolute k \<Longrightarrow> \<not> key_matches k"
  by (auto simp: key_matches_def safe_file_path_def dest: split_slash_includes)

lemma find_Some_ex: "\<exists>x\<in>set xs. P x \<Longrightarrow> \<exists>y. find P xs = Some y"
  by (induction xs) auto

lemma validate_files_unknown_key:
  assumes "k \<in> set (map fst entries)" "\<not> key_matches k"
  shows "\<exists>error. validate_files (JObj entries) = Some error"
proof -
  from assms have "\<exists>e\<in>set entries. \<not> key_matches (fst e)" by auto
  from find_Some_ex[OF this] obtain e where "find (\<lambda>e. \<not> key_matches (fst e)) entries = Some e"
    by blast
  then show ?thesis
    by (simp add: validate_files_def split: option.splits)
qed

lemma get_files_cases:
  assumes "get_files payload \<noteq> []"
  obtains kvs where "payload = JObj kvs" "map_of kvs (js ''files'') = Some (JObj (get_files payload))"
proof (cases payload)
  case (JObj kvs)
  show ?thesis
  proof (cases "map_of kvs (js ''files'')")
    case None
    with JObj assms show ?thesis by (simp add: get_files_def)
  next
    case (Some v)
    with JObj assms have "v = JObj (get_files payload)"
      by (cases v) (simp_all add: get_files_def)
    with JObj Some that show ?thesis by simp
  qed
qed (use assms in \<open>simp_all add: get_files_def\<close>)

lemma validate_rejects_unknown_key:
  assumes "k \<in> set (map fst (get_files payload))" "\<not> key_matches k"
  shows "\<exists>error. buildPayloadSchema_validate payload = Inl error"
proof -
  from assms(1) have "get_files payload \<noteq> []" by auto
  then obtain kvs where b: "payload = JObj kvs"
    and f: "map_of kvs (js ''files'') = Some (JObj (get_files payload))"
    by (rule get_files_cases)
  from validate_files_unknown_key[OF assms]
  obtain error where "validate_files (JObj (get_files payload)) = Some error" by auto
  with b f show ?thesis by (simp add: buildPayloadSchema_validate_def)
qed

lemma check_request_rejects:
  assumes "buildPayloadSchema_validate (body req) = Inl error"
  shows "\<exists>m status. fst (check_request lib cfg req w) = Inl (AppError m status)
           \<and> (status = 400 \<or> status = 507)"
proof -
  obtain d w' where "checkDiskSpace cfg (add_log (LInfo, js ''Nova requisi'' @ [c_cedilla, a_tilde] @ js ''o de build recebida'', None) w) = (d, w')"
    by force
  moreover have "\<exists>ds. d = Inr ds"
    using calculation
    by (auto simp: checkDiskSpace_def io_defs Let_def split: prod.splits sum.splits)
  ultimately show ?thesis using assms
    by (auto simp: check_request_def io_defs)
qed

lemma post_build_check_fails:
  assumes "check_request lib cfg req w = (Inl error, w0)"
  shows "post_build lib cfg req w = on_error (clock w) None error w0"
proof -
  obtain r w1 where o: "on_error (clock w) None error w0 = (r, w1)" by force
  with on_error_result[of "clock w" None error w0] have "r = Inr (Passed error)" by simp
  with o assms show ?thesis
    by (simp add: post_build_def io_defs Date_now_def)
qed

lemma logs_post_build_None:
  assumes "check_request lib cfg req w = (Inl error, w0)"
  shows "only_logged w (snd (post_build lib cfg req w))"
proof -
  have a: "only_logged w w0" by (rule logsD[OF logs_check_request assms])
  have "only_logged w0 (snd (on_error (clock w) None error w0))"
    using logs_on_error_None[of "clock w" error] by (simp add: logs_only_def)
  with a post_build_check_fails[OF assms] show ?thesis
    by (auto intro: only_logged_trans)
qed

lemma fs_segments_add_log [simp]: "fs_segments (add_log e w) p = fs_segments w p"
  by (simp add: fs_segments_def)

lemma rm_at_gone: "rm_at now n segs = Inr n' \<Longrightarrow> lookup n' segs = None"
proof (induction now n segs arbitrary: n' rule: rm_at.induct)
  case (3 now t cs s)
  then show ?case
    by (auto simp: delete_conv' split: option.splits)
next
  case (4 now t cs s s' ss)
  then show ?case
    by (auto simp: update_conv' split: option.splits sum.splits)
qed simp_all

lemma fs_rm_gone:
  assumes "fs_rm p w = (Inr u, w')"
  shows "lookup (root w') (fs_segments w p) = None"
  using assms rm_at_gone[of "clock w" "root w" "fs_segments w p"]
  by (auto simp: fs_rm_def split: option.splits sum.splits)

lemma removeDirectory_gone:
  assumes "removeDirectory p w = (Inr u, w')"
  shows "lookup (root w') (fs_segments w p) = None"
proof -
  obtain r w1 where f: "fs_rm p w = (r, w1)" by force
  show ?thesis
  proof (cases r)
    case (Inl e)
    with f assms show ?thesis by (simp add: removeDirectory_def io_defs)
  next
    case (Inr x)
    with f assms have "root w' = root w1" by (auto simp: removeDirectory_def io_defs)
    with fs_rm_gone[OF f[unfolded Inr]] show ?thesis by simp
  qed
qed

lemma removeDirectory_fault:
  assumes "fs_fault w (Rm p) = Some m"
  shows "removeDirectory p w =
    (Inl (Error (js ''Falha ao remover '' @ diretorio @ js '': '' @ m)),
     add_log (LError, js ''Erro ao remover '' @ diretorio @ js '' '' @ p @ js '':'', Some m) w)"
  using assms by (simp add: removeDirectory_def fs_rm_def io_defs)

lemma on_error_cleanup:
  assumes "removeDirectory dir (add_log (LError, js ''Erro durante build:'', Some (message error)) w)
             = (removed, w2)"
  shows "on_error startTime (Some dir) error w =
    (Inr (Passed error),
     (case removed of
        Inr u \<Rightarrow> add_log (LDebug, Diretorio @ js '' de projeto removido ap'' @ [o_acute] @ js ''s erro'', None) w2
      | Inl cleanupError \<Rightarrow>
          add_log (LError, js ''Erro ao limpar '' @ diretorio @ js '' ap'' @ [o_acute] @ js ''s falha:'',
                   Some (message cleanupError)) w2))"
  using assms by (cases removed) (simp_all add: on_error_def io_defs Date_now_def)

lemma check_req_ok_rm:
  "fst (check_request lib0 cfg_pnpm req_ok w_rm_fails) = Inr (files_ok, 2)"
  by (simp add: check_request_def req_ok_def files_ok_def io_defs fs_eval validation_eval eval_defs w_rm_fails_def)

lemma stage_ok_rm:
  "fst (stage_project lib0 workspace_abc files_ok w) = Inr 7"
  if "w = snd (nanoid (snd (check_request lib0 cfg_pnpm req_ok w_rm_fails)))"
  unfolding that
  by (simp add: stage_project_def check_request_def req_ok_def files_ok_def io_defs fs_eval validation_eval eval_defs w_rm_fails_def)


lemma build_fails_at:
  assumes "\<not> globalThis w (js ''id'')"
    and c: "fst (check_request lib0 cfg_pnpm req_ok w) = Inr (files_ok, 2)"
    and i: "ids w = ids w_base" "ids_used w = ids_used w_base"
    and s: "fst (stage_project lib0 workspace_abc files_ok (snd (nanoid (snd (check_request lib0 cfg_pnpm req_ok w))))) = Inr 7"
  shows "check_request lib0 cfg_pnpm req_ok w = (Inr (files_ok, 2), snd (check_request lib0 cfg_pnpm req_ok w))"
    and "nanoid (snd (check_request lib0 cfg_pnpm req_ok w)) = (Inr (js ''abc''), snd (nanoid (snd (check_request lib0 cfg_pnpm req_ok w))))"
    and "build_project lib0 cfg_pnpm req_ok (clock w) (js ''abc'') workspace_abc files_ok 2 (snd (nanoid (snd (check_request lib0 cfg_pnpm req_ok w)))) =
       (Inl (ReferenceError (js ''id is not defined'')),
        add_log (LInfo, js ''Arquivos escritos, iniciando build'', None)
          (snd (stage_project lib0 workspace_abc files_ok (snd (nanoid (snd (check_request lib0 cfg_pnpm req_ok w)))))))"
proof -
  let ?w0 = "snd (check_request lib0 cfg_pnpm req_ok w)"
  show h2: "check_request lib0 cfg_pnpm req_ok w = (Inr (files_ok, 2), ?w0)"
    by (rule prod_fst_snd[OF c])
  from logsD[OF logs_check_request h2] have f: "only_logged w ?w0" .
  then show h3: "nanoid ?w0 = (Inr (js ''abc''), snd (nanoid ?w0))"
    using i by (simp add: nanoid_def only_logged_def fs_step_def w_base_def)
  have g: "\<not> globalThis (snd (nanoid ?w0)) (js ''id'')"
    using f assms(1) by (simp add: nanoid_def only_logged_def fs_step_def)
  have "int 7 \<le> maxProjectSize cfg_pnpm" by (simp add: cfg_pnpm_def)
  from build_project_after_staging[OF g prod_fst_snd[OF s] this]
  show "build_project lib0 cfg_pnpm req_ok (clock w) (js ''abc'') workspace_abc files_ok 2 (snd (nanoid ?w0)) =
       (Inl (ReferenceError (js ''id is not defined'')),
        add_log (LInfo, js ''Arquivos escritos, iniciando build'', None)
          (snd (stage_project lib0 workspace_abc files_ok (snd (nanoid ?w0)))))" .
qed

lemma removeDirectory_ok:
  assumes "fs_fault w (Rm p) = None" "\<exists>r. rm_at (clock w) (root w) (fs_segments w p) = Inr r"
  shows "fst (removeDirectory p w) = Inr ()"
  using assms by (auto simp: removeDirectory_def fs_rm_def io_defs)

lemma workspace_path: "workspace_abc = path_join [previewsDir cfg_pnpm, js ''abc'']"
  by (simp add: fs_eval cfg_pnpm_def js_def)

lemma staged_root:
  "root (snd (stage_project lib0 workspace_abc files_ok (snd (nanoid (snd (check_request lib0 cfg_pnpm req_ok w_base)))))) =
     Dir 0 [(js ''srv'', Dir 0 [(js ''previews'', Dir 90000000 [(js ''abc'', Dir 90000000
       [(js ''package.json'', File 90000000 (js ''{}'')),
        (js ''src'', Dir 90000000 [(js ''main.jsx'', File 90000000 (js ''hello''))])])])])]"
  by (simp add: stage_project_def check_request_def req_ok_def files_ok_def io_defs fs_eval validation_eval eval_defs)

lemma size_bound:
  "fst (getDirectorySize_at dirPath n w) = Inr k \<Longrightarrow> k \<le> tree_size n"
  and "fst (size_loop dirPath es acc w) = Inr k \<Longrightarrow> k \<le> acc + entries_size es"
proof (induction dirPath n w and dirPath es acc w arbitrary: k and k rule: getDirectorySize_at_size_loop.induct)
  case (1 dirPath t c w)
  then show ?case
    by (auto simp: readdir_of_def logger_def split: option.splits)
next
  case (2 dirPath t cs w)
  show ?case
  proof (cases "fs_fault w (Readdir dirPath)")
    case None
    then have rd: "(Inr (map (\<lambda>e. (fst e, is_dir (snd e))) cs), w) = readdir_of dirPath (Some (Dir t cs)) w"
      by (simp add: readdir_of_def)
    obtain r w' where l: "size_loop dirPath cs 0 w = (r, w')" by force
    show ?thesis
    proof (cases r)
      case (Inl e)
      with l rd[symmetric] 2(2) show ?thesis by (simp add: logger_def)
    next
      case (Inr total)
      with l rd[symmetric] 2(2) have "k = total" by simp
      with 2(1)[OF rd refl, of total] l Inr show ?thesis by simp
    qed
  next
    case (Some m)
    with 2(2) show ?thesis by (simp add: readdir_of_def logger_def)
  qed
next
  case (3 dirPath totalSize w)
  then show ?case by simp
next
  case (4 dirPath ent rest totalSize w)
  let ?p = "path_join [dirPath, fst ent]"
  show ?case
  proof (cases "is_dir (snd ent)")
    case True
    obtain r w' where a: "getDirectorySize_at ?p (snd ent) w = (r, w')" by force
    show ?thesis
    proof (cases r)
      case (Inl e)
      with a 4(4) True show ?thesis by (simp add: Let_def)
    next
      case (Inr s)
      from 4(1)[OF refl True, of s] a Inr have s: "s \<le> tree_size (snd ent)" by simp
      from 4(4) a Inr True have "fst (size_loop dirPath rest (totalSize + s) w') = Inr k"
        by (simp add: Let_def)
      from 4(2)[OF refl True a[symmetric] Inr this] s show ?thesis by simp
    qed
  next
    case False
    then obtain t c where f: "snd ent = File t c" by (cases "snd ent") auto
    obtain r w' where a: "stat_of ?p (Some (snd ent)) w = (r, w')" by force
    show ?thesis
    proof (cases r)
      case (Inl e)
      with a 4(4) False show ?thesis by (simp add: Let_def)
    next
      case (Inr st)
      with a f have s: "st_size st = utf8_length c"
        by (auto simp: stat_of_def split: option.splits)
      from 4(4) a Inr False have "fst (size_loop dirPath rest (totalSize + st_size st) w') = Inr k"
        by (simp add: Let_def)
      from 4(3)[OF refl False a[symmetric] Inr this] s f show ?thesis by simp
    qed
  qed
qed

lemma getDirectorySize_bound:
  assumes "lookup (root w) (fs_segments w dirPath) = Some n"
    and "fst (getDirectorySize dirPath w) = Inr k"
  shows "k \<le> tree_size n"
  using assms size_bound(1)[of dirPath n w k] by (simp add: getDirectorySize_def)

lemma getDirectorySize_unreadable:
  assumes "readdir_of dirPath (lookup (root w) (fs_segments w dirPath)) w = (Inl e, w')"
  shows "fst (getDirectorySize dirPath w) = Inr 0"
proof (cases "lookup (root w) (fs_segments w dirPath)")
  case None
  with assms show ?thesis by (simp add: getDirectorySize_def logger_def)
next
  case (Some n)
  with assms show ?thesis
    by (cases n) (auto simp: getDirectorySize_def logger_def split: sum.splits prod.splits)
qed

lemma size_loop_stat_fault:
  assumes "ent \<in> set es" "\<not> is_dir (snd ent)" "fs_fault w (Stat (path_join [dirPath, fst ent])) = Some m"
  shows "\<exists>e. fst (size_loop dirPath es acc w) = Inl e"
  using assms
proof (induction es arbitrary: acc w)
  case Nil
  then show ?case by simp
next
  case (Cons e0 rest)
  let ?p = "path_join [dirPath, fst e0]"
  show ?case
  proof (cases "is_dir (snd e0)")
    case True
    with Cons.prems have m: "ent \<in> set rest" by auto
    obtain r w' where a: "getDirectorySize_at ?p (snd e0) w = (r, w')" by force
    with getDirectorySize_at_total[of ?p "snd e0" w] obtain s where r: "r = Inr s"
      and l: "only_logged w w'" by auto
    then have "fs_fault w' = fs_fault w" by (simp add: only_logged_def fs_step_def)
    with Cons.IH[OF m Cons.prems(2), of w' "acc + s"] Cons.prems(3) a r True show ?thesis
      by (simp add: Let_def)
  next
    case False
    obtain r w' where a: "stat_of ?p (Some (snd e0)) w = (r, w')" by force
    show ?thesis
    proof (cases r)
      case (Inl e)
      with a False show ?thesis by (simp add: Let_def)
    next
      case (Inr st)
      with a have nf: "fs_fault w (Stat ?p) = None" and ww: "w' = w"
        by (auto simp: stat_of_def split: option.splits)
      with Cons.prems have m: "ent \<in> set rest" by auto
      from Cons.IH[OF m Cons.prems(2), of w' "acc + st_size st"] Cons.prems(3) ww a Inr False
      show ?thesis by (simp add: Let_def)
    qed
  qed
qed

lemma getDirectorySize_file_fault:
  assumes "lookup (root w) (fs_segments w dirPath) = Some (Dir t cs)"
    and "ent \<in> set cs" "\<not> is_dir (snd ent)"
    and "fs_fault w (Stat (path_join [dirPath, fst ent])) = Some m"
  shows "fst (getDirectorySize dirPath w) = Inr 0"
proof -
  from size_loop_stat_fault[OF assms(2,3,4), of 0] obtain e where
    "fst (size_loop dirPath cs 0 w) = Inl e" by blast
  with assms(1) show ?thesis
    by (auto simp: getDirectorySize_def readdir_of_def logger_def split: option.splits prod.splits sum.splits)
qed


lemmas size_eval = getDirectorySize_def readdir_of_def stat_of_def logger_def add_log_def
  path_join_def normalize_def normalize_segs_def isAbsolute_def fs_segments_def Let_def
  w_src_unreadable_def w_workspace_unreadable_def w_file_unreadable_def w_base_def

subsection \<open>What a joined path resolves to\<close>

lemma split_slash_no_slash: "SLASH \<notin> set x \<Longrightarrow> split_slash x = [x]"
  by (induction x) auto

lemma split_slash_append: "split_slash (a @ SLASH # b) = split_slash a @ split_slash b"
proof (induction a)
  case Nil
  then show ?case by simp
next
  case (Cons c a)
  then show ?case
    by (cases "split_slash a") (auto split: list.splits)
qed

lemma split_slash_segments: "x \<in> set (split_slash s) \<Longrightarrow> SLASH \<notin> set x"
proof (induction s arbitrary: x)
  case Nil
  then show ?case by simp
next
  case (Cons c s)
  then show ?case
    by (cases "split_slash s") (auto split: if_splits)
qed

lemma split_join:
  "xs \<noteq> [] \<Longrightarrow> \<forall>x\<in>set xs. SLASH \<notin> set x \<Longrightarrow> split_slash (join_with [SLASH] xs) = xs"
proof (induction xs rule: induct_list012)
  case (3 x y zs)
  then show ?case
    by (simp add: split_slash_append split_slash_no_slash)
qed (simp_all add: split_slash_no_slash)

lemma join_with_Nil_iff: "\<forall>x\<in>set xs. x \<noteq> [] \<Longrightarrow> join_with sep xs = [] \<longleftrightarrow> xs = []"
  by (induction xs rule: induct_list012) auto

lemma join_with_hd: "xs \<noteq> [] \<Longrightarrow> hd xs \<noteq> [] \<Longrightarrow> hd (join_with sep xs) = hd (hd xs)"
  by (induction xs rule: induct_list012) auto

lemma norm_segs_append: "norm_segs a acc (xs @ ys) = norm_segs a (norm_segs a acc xs) ys"
  by (induction xs arbitrary: acc) auto

lemma norm_segs_set:
  "x \<in> set (norm_segs a acc xs) \<Longrightarrow> x \<in> set acc \<or> (x \<in> set xs \<and> kept_segment x)"
proof (induction xs arbitrary: acc)
  case Nil
  then show ?case by simp
next
  case (Cons s ss)
  show ?case
    using Cons.prems Cons.IH[of acc] Cons.IH[of "butlast acc"] Cons.IH[of "acc @ [s]"]
    by (auto simp: kept_segment_def split: if_splits dest: in_set_butlastD)
qed

lemma norm_segs_no_dotdot:
  "dotdot \<notin> set acc \<Longrightarrow> dotdot \<notin> set (norm_segs False acc xs)"
proof (induction xs arbitrary: acc)
  case Nil
  then show ?case by simp
next
  case (Cons s ss)
  then show ?case
    by (auto dest: in_set_butlastD)
qed

lemma norm_segs_plain:
  "dotdot \<notin> set xs \<Longrightarrow> norm_segs a acc xs = acc @ filter kept_segment xs"
  by (induction xs arbitrary: acc) (auto simp: kept_segment_def)

lemma norm_segs_relative_first:
  "\<forall>x\<in>set acc. kept_segment x \<Longrightarrow>
   norm_segs False C (norm_segs True acc xs) = norm_segs False (norm_segs False C acc) xs"
proof (induction xs arbitrary: acc)
  case Nil
  then show ?case by simp
next
  case (Cons s ss)
  show ?case
  proof (cases "s = [] \<or> s = dot")
    case True
    with Cons show ?thesis by auto
  next
    case False
    note plain = this
    show ?thesis
    proof (cases "s = dotdot")
      case False
      have k: "\<forall>x\<in>set (acc @ [s]). kept_segment x"
        using Cons.prems plain by (auto simp: kept_segment_def)
      from Cons.IH[OF k] plain False show ?thesis
        by (simp add: norm_segs_append)
    next
      case True
      show ?thesis
      proof (cases "acc \<noteq> [] \<and> last acc \<noteq> dotdot")
        case True
        note pop = this
        have k: "\<forall>x\<in>set (butlast acc). kept_segment x"
          using Cons.prems by (auto dest: in_set_butlastD)
        have l: "kept_segment (last acc)" using Cons.prems pop by auto
        have "norm_segs False C acc = norm_segs False (norm_segs False C (butlast acc)) [last acc]"
          using pop norm_segs_append[of False C "butlast acc" "[last acc]"] by simp
        also have "\<dots> = norm_segs False C (butlast acc) @ [last acc]"
          using l pop by (simp add: kept_segment_def)
        finally have "norm_segs False (norm_segs False C acc) (dotdot # ss) =
                      norm_segs False (norm_segs False C (butlast acc)) ss"
          using pop by simp
        with Cons.IH[OF k] \<open>s = dotdot\<close> pop show ?thesis by simp
      next
        case False
        have k: "\<forall>x\<in>set (acc @ [dotdot]). kept_segment x"
          using Cons.prems by (auto simp: kept_segment_def)
        have "norm_segs False C (acc @ [dotdot]) = norm_segs False (norm_segs False C acc) [dotdot]"
          by (simp add: norm_segs_append)
        with Cons.IH[OF k] \<open>s = dotdot\<close> False show ?thesis
          by auto
      qed
    qed
  qed
qed


lemma normalize_segs_clean:
  "x \<in> set (normalize_segs p) \<Longrightarrow> kept_segment x \<and> SLASH \<notin> set x"
  unfolding normalize_segs_def
  by (auto dest!: norm_segs_set dest: split_slash_segments)

lemma norm_segs_skip_empty [simp]:
  "norm_segs a acc ([] # xs) = norm_segs a acc xs"
  "norm_segs a acc (xs @ [[]]) = norm_segs a acc xs"
  by (simp_all add: norm_segs_append)

lemma split_slash_trailing: "split_slash (s @ [SLASH]) = split_slash s @ [[]]"
  using split_slash_append[of s "[]"] by simp

lemma split_slash_leading: "split_slash (SLASH # s) = [] # split_slash s"
  by simp

lemma cwd_segments: "fs_segments w [] = norm_segs False [] (split_slash (cwd w))"
  by (simp add: fs_segments_def isAbsolute_def)

lemma fs_segments_relative:
  "\<not> isAbsolute p \<Longrightarrow>
   fs_segments w p = norm_segs False (norm_segs False [] (split_slash (cwd w))) (split_slash p)"
  unfolding fs_segments_def by (simp add: norm_segs_append)

lemma not_isAbsolute_Nil [simp]: "\<not> isAbsolute []"
  by (simp add: isAbsolute_def)

lemma fs_segments_absolute:
  "isAbsolute p \<Longrightarrow> fs_segments w p = norm_segs False [] (split_slash p)"
  by (simp add: fs_segments_def)

lemma fs_segments_normalize: "fs_segments w (normalize p) = fs_segments w p"
proof (cases "p = []")
  case True
  then show ?thesis
    by (simp add: normalize_def fs_segments_relative isAbsolute_def)
next
  case False
  define C where "C = norm_segs False [] (split_slash (cwd w))"
  define N where "N = normalize_segs p"
  have clean: "\<forall>x\<in>set N. kept_segment x \<and> SLASH \<notin> set x"
    unfolding N_def using normalize_segs_clean by blast
  have nonempty: "\<forall>x\<in>set N. x \<noteq> []"
    using clean by (auto simp: kept_segment_def)
  have noslash: "\<forall>x\<in>set N. SLASH \<notin> set x" using clean by blast
  have kept: "\<forall>x\<in>set N. kept_segment x" using clean by blast
  show ?thesis
  proof (cases "isAbsolute p")
    case True
    have Nseg: "fs_segments w p = N"
      using True by (simp add: fs_segments_absolute N_def normalize_segs_def)
    have nodd: "dotdot \<notin> set N"
      using True norm_segs_no_dotdot[of "[]" "split_slash p"]
      by (simp add: N_def normalize_segs_def)
    have idem: "norm_segs False [] N = N"
      using norm_segs_plain[OF nodd, of False "[]"] kept by (simp add: filter_id_conv)
    show ?thesis
    proof (cases "N = []")
      case True
      with \<open>isAbsolute p\<close> False Nseg show ?thesis
        by (simp add: normalize_def N_def[symmetric] fs_segments_absolute isAbsolute_def)
    next
      case False
      then have j: "join_with [SLASH] N \<noteq> []"
        using join_with_Nil_iff[OF nonempty] by simp
      have sp: "split_slash (join_with [SLASH] N) = N"
        using split_join[OF False noslash] .
      show ?thesis
        using True \<open>p \<noteq> []\<close> j Nseg idem sp
        by (simp add: normalize_def N_def[symmetric] Let_def fs_segments_absolute isAbsolute_def
              split_slash_trailing)
    qed
  next
    case False
    note rel = this
    have Nseg: "fs_segments w p = norm_segs False C N"
      using rel norm_segs_relative_first[of "[]" C "split_slash p"]
      by (simp add: fs_segments_relative N_def normalize_segs_def C_def)
    show ?thesis
    proof (cases "N = []")
      case True
      with rel \<open>p \<noteq> []\<close> Nseg show ?thesis
        by (simp add: normalize_def N_def[symmetric] fs_segments_relative isAbsolute_def
              js_def C_def)
    next
      case False
      then have j: "join_with [SLASH] N \<noteq> []"
        using join_with_Nil_iff[OF nonempty] by simp
      have sp: "split_slash (join_with [SLASH] N) = N"
        using split_join[OF False noslash] .
      have "hd N \<in> set N" using False by simp
      then have "hd N \<noteq> []" "SLASH \<notin> set (hd N)" using clean by (auto simp: kept_segment_def)
      then have "hd (hd N) \<noteq> SLASH" by (cases "hd N") auto
      then have h: "hd (join_with [SLASH] N) \<noteq> SLASH"
        using join_with_hd[OF False \<open>hd N \<noteq> []\<close>] by simp
      have r1: "\<not> isAbsolute (join_with [SLASH] N)"
        using h by (simp add: isAbsolute_def)
      have r2: "\<not> isAbsolute (join_with [SLASH] N @ [SLASH])"
        using h j by (simp add: isAbsolute_def)
      show ?thesis
        using rel \<open>p \<noteq> []\<close> j Nseg sp r1 r2
        by (simp add: normalize_def N_def[symmetric] Let_def fs_segments_relative
              split_slash_trailing C_def)
    qed
  qed
qed

lemma fs_segments_join:
  assumes "d \<noteq> [] \<or> \<not> isAbsolute p"
  shows "fs_segments w (path_join [d, p]) =
     (if p = [] then fs_segments w d
      else norm_segs False (fs_segments w d) (split_slash p))"
proof (cases "d = []")
  case True
  note d = this
  show ?thesis
  proof (cases "p = []")
    case True
    with d show ?thesis
      by (simp add: path_join_def fs_segments_relative isAbsolute_def)
  next
    case False
    then have "path_join [d, p] = normalize p"
      using d by (simp add: path_join_def)
    then have "fs_segments w (path_join [d, p]) = fs_segments w p"
      by (simp add: fs_segments_normalize)
    moreover have "\<not> isAbsolute p" using assms d by simp
    ultimately show ?thesis
      using d False by (simp add: fs_segments_relative)
  qed
next
  case False
  note d = this
  have abs: "isAbsolute (d @ q) = isAbsolute d" for q
    using d by (simp add: isAbsolute_def)
  show ?thesis
  proof (cases "p = []")
    case True
    then have "path_join [d, p] = normalize d"
      using d by (simp add: path_join_def)
    then show ?thesis using True by (simp add: fs_segments_normalize)
  next
    case False
    then have "path_join [d, p] = normalize (d @ SLASH # p)"
      using d by (simp add: path_join_def)
    then have "fs_segments w (path_join [d, p]) = fs_segments w (d @ SLASH # p)"
      by (simp add: fs_segments_normalize)
    also have "\<dots> = norm_segs False (fs_segments w d) (split_slash p)"
      unfolding fs_segments_def abs
      by (simp add: split_slash_append norm_segs_append del: split_slash.simps)
    finally show ?thesis using False by simp
  qed
qed

lemma fs_segments_child:
  assumes "valid_name name"
  shows "fs_segments w (path_join [d, name]) = fs_segments w d @ [name]"
proof -
  have "\<not> isAbsolute name"
    using assms by (cases name) (auto simp: valid_name_def isAbsolute_def)
  then show ?thesis
    using assms by (simp add: fs_segments_join valid_name_def split_slash_no_slash)
qed

lemma fs_segments_safe_key:
  assumes "key_matches k"
  shows "fs_segments w (path_join [d, k]) = fs_segments w d @ filter kept_segment (split_slash k)"
proof -
  have "k \<noteq> []" using assms by (simp add: key_matches_def)
  moreover have "dotdot \<notin> set (split_slash k)"
    using assms unsafe_key_rejected by blast
  moreover have "\<not> isAbsolute k"
    using assms unsafe_key_rejected by blast
  ultimately show ?thesis
    by (simp add: fs_segments_join norm_segs_plain)
qed

lemma stage_files_single:
  "stage_files lib projectDir [(k, v)] w = writeFileSecure lib (path_join [projectDir, k]) v w"
  by (cases "writeFileSecure lib (path_join [projectDir, k]) v w")
     (auto simp: Let_def split: sum.splits)

section \<open>The claims\<close>

subsection \<open>C1: the build endpoint never answers with success\<close>

text \<open>
  C1. Where the global object has no property \<open>id\<close> (the handler and its module
  bind no such name): a request that passes the checks of lines 20 to 47, whose
  files are staged and whose measured size is within the limit, ends with
  \<open>next(error)\<close> for the \<open>ReferenceError\<close> raised where the arguments of
  \<open>runBuild\<close> are evaluated; and every request, whatever it holds, ends with
  \<open>next(error)\<close>, never with the success response.
\<close>

theorem build_never_responds:
  assumes "\<not> globalThis w (js ''id'')"
    and "check_request lib cfg req w = (Inr (files, fileCount), w0)"
    and "nanoid w0 = (Inr projectId, w0')"
    and "projectDir = path_join [previewsDir cfg, projectId]"
    and "stage_project lib projectDir files w0' = (Inr projectSize, w1)"
    and "int projectSize \<le> maxProjectSize cfg"
    and "\<not> globalThis v (js ''id'')"
  shows "fst (post_build lib cfg req w) = Inr (Passed (ReferenceError (js ''id is not defined'')))
       \<and> (\<exists>error. fst (post_build lib' cfg' req' v) = Inr (Passed error))"
proof -
  from check_request_world[OF assms(2)] assms(3) have "globalThis w0' = globalThis w"
    by (auto simp: only_logged_def fs_step_def nanoid_def)
  with assms(1) have "\<not> globalThis w0' (js ''id'')" by simp
  from build_project_after_staging[OF this assms(5,6)]
  have "build_project lib cfg req (clock w) projectId projectDir files fileCount w0' =
          (Inl (ReferenceError (js ''id is not defined'')),
           add_log (LInfo, js ''Arquivos escritos, iniciando build'', None) w1)" .
  from post_build_after_check[OF assms(2,3,4) this] on_error_result
  have "fst (post_build lib cfg req w) = Inr (Passed (ReferenceError (js ''id is not defined'')))"
    by simp
  with post_build_passes[OF assms(7)] show ?thesis by blast
qed

theorem build_never_responds_witness:
  "fst (post_build lib0 cfg_pnpm req_ok w_base) =
     Inr (Passed (ReferenceError (js ''id is not defined'')))
   \<and> (\<exists>error. fst (post_build lib0 cfg_pnpm req_escape w_base) = Inr (Passed error))"
proof -
  let ?w0 = "snd (check_request lib0 cfg_pnpm req_ok w_base)"
  let ?w0' = "snd (nanoid ?w0)"
  let ?w1 = "snd (stage_project lib0 workspace_abc files_ok ?w0')"
  have g: "\<not> globalThis w_base (js ''id'')" by (simp add: w_base_def)
  have h2: "check_request lib0 cfg_pnpm req_ok w_base = (Inr (files_ok, 2), ?w0)"
    by (rule prod_fst_snd[OF check_req_ok])
  have h3: "nanoid ?w0 = (Inr (js ''abc''), ?w0')"
    using logsD[OF logs_check_request h2]
    by (simp add: nanoid_def only_logged_def fs_step_def w_base_def)
  have h4: "workspace_abc = path_join [previewsDir cfg_pnpm, js ''abc'']"
    by (simp add: fs_eval cfg_pnpm_def js_def)
  have h5: "stage_project lib0 workspace_abc files_ok ?w0' = (Inr 7, ?w1)"
    by (rule prod_fst_snd[OF stage_ok[OF refl]])
  have h6: "int 7 \<le> maxProjectSize cfg_pnpm" by (simp add: cfg_pnpm_def)
  from build_never_responds[OF g h2 h3 h4 h5 h6 g, of lib0 cfg_pnpm req_escape]
  show ?thesis .
qed

subsection \<open>C2: fallback installer\<close>




subsection \<open>C5: unsafe paths are rejected before any write\<close>

text \<open>
  C5. A request whose file set has a key with a \<open>..\<close> segment, or an absolute
  key, is rejected by the schema; the handler ends with \<open>next(error)\<close> for an
  error of status 400 (or 507, when the disk check before the validation has
  already refused the request), and nothing but the log has changed: no directory
  was created, no file written, no project identifier drawn.
\<close>

theorem unsafe_path_rejected_before_write:
  assumes "k \<in> set (map fst (get_files (body req)))"
    and "dotdot \<in> set (split_slash k) \<or> isAbsolute k"
  shows "(\<exists>error. buildPayloadSchema_validate (body req) = Inl error)
       \<and> (\<exists>m status. fst (post_build lib cfg req w) = Inr (Passed (AppError m status))
             \<and> (status = 400 \<or> status = 507))
       \<and> only_logged w (snd (post_build lib cfg req w))"
proof -
  from validate_rejects_unknown_key[OF assms(1) unsafe_key_rejected[OF assms(2)]]
  obtain error where v: "buildPayloadSchema_validate (body req) = Inl error" by blast
  from check_request_rejects[OF v, of lib cfg w] obtain m status where
    c: "fst (check_request lib cfg req w) = Inl (AppError m status)" and s: "status = 400 \<or> status = 507"
    by blast
  from prod_fst_snd[OF c] have c': "check_request lib cfg req w =
      (Inl (AppError m status), snd (check_request lib cfg req w))" .
  from post_build_check_fails[OF c'] on_error_result
  have "fst (post_build lib cfg req w) = Inr (Passed (AppError m status))" by simp
  with v s logs_post_build_None[OF c'] show ?thesis by blast
qed

theorem unsafe_path_rejected_before_write_witness:
  "(\<exists>error. buildPayloadSchema_validate (body req_escape) = Inl error)
   \<and> (\<exists>m status. fst (post_build lib0 cfg_pnpm req_escape w_base) = Inr (Passed (AppError m status))
         \<and> (status = 400 \<or> status = 507))
   \<and> only_logged w_base (snd (post_build lib0 cfg_pnpm req_escape w_base))"
proof -
  have h1: "js ''../evil.txt'' \<in> set (map fst (get_files (body req_escape)))"
    by (simp add: req_escape_def get_files_def js_def)
  have h2: "dotdot \<in> set (split_slash (js ''../evil.txt'')) \<or> isAbsolute (js ''../evil.txt'')"
    by (simp add: js_def)
  from unsafe_path_rejected_before_write[OF h1 h2] show ?thesis .
qed

subsection \<open>C6: where staging writes\<close>




subsection \<open>C7: timeout of a command\<close>




subsection \<open>C8: a failed build removes its workspace\<close>



subsection \<open>C9: size of a workspace that cannot be measured\<close>




subsection \<open>C10: fixed caps of the payload schema\<close>

text \<open>
  C10 at a file set whose only file holds 600000 times the character U+00E9: the
  content has 600000 characters and 1200000 bytes in UTF-8, more than 1048576, and
  the schema accepts the payload, because \<open>max(1024 * 1024)\<close> bounds the number
  of characters.
\<close>

theorem multibyte_content_accepted:
  "buildPayloadSchema_validate
     (JObj [(js ''files'', JObj [(js ''package.json'', JStr (replicate 600000 0xE9))])])
     = Inr (JObj [(js ''files'', JObj [(js ''package.json'', JStr (replicate 600000 0xE9))])])
   \<and> utf8_length (replicate 600000 0xE9) = 1200000"
proof -
  have k: "key_matches (js ''package.json'')"
    by (simp add: key_matches_def safe_file_path_def normalize_def normalize_segs_def
        isAbsolute_def js_def)
  show ?thesis
    by (simp add: buildPayloadSchema_validate_def validate_files_def k utf8_replicate)
qed

end
